theory Spec2Isabelle
  imports Main
begin

text \<open>
  A model of the rules engine of the game server: the session state machine (\<^verbatim>\<open>Room\<close>),
  the hook pipeline (\<^verbatim>\<open>HookManager\<close>) and the session registry (\<^verbatim>\<open>GameManager\<close>). The
  sources hold several revisions of \<^verbatim>\<open>Room.ts\<close> and \<^verbatim>\<open>GameManager.ts\<close>; the model follows
  the latest of each, the ones the tests exercise: the Room with activity timestamps and
  bookkeeping keyed by \<open>playerId\<close>, and the GameManager that builds one HookManager per
  room.

  Every operation takes the room and returns it: the object survives an exception, so an
  operation that can throw returns the room next to its outcome. \<^verbatim>\<open>Date.now()\<close> is the
  argument \<open>now\<close>. Not modelled: \<^verbatim>\<open>startGame\<close>, \<^verbatim>\<open>assignRoles\<close> and \<^verbatim>\<open>resetGame\<close> (random
  draws, and role assignment runs un-awaited beside its caller) and the projection
  \<^verbatim>\<open>getGameState\<close>.
\<close>

section \<open>Constants (game/constants.ts)\<close>

definition MIN_PLAYERS :: nat where
  "MIN_PLAYERS = 1"

definition MAX_PLAYERS :: nat where
  "MAX_PLAYERS = 20"

text \<open>\<^verbatim>\<open>MISSION_CONFIG: Record<number, number[]>\<close>: player count to the five team sizes.\<close>

definition MISSION_CONFIG :: "(nat \<times> nat list) list" where
  "MISSION_CONFIG =
    [(1, [1, 1, 1, 1, 1]), (2, [1, 2, 1, 2, 2]), (3, [2, 2, 2, 2, 2]), (4, [2, 2, 2, 3, 3]),
     (5, [2, 3, 2, 3, 3]), (6, [2, 3, 4, 3, 4]), (7, [2, 3, 3, 4, 4]), (8, [3, 4, 4, 5, 5]),
     (9, [3, 4, 4, 5, 5]), (10, [3, 4, 4, 5, 5]), (11, [3, 4, 4, 5, 5]), (12, [3, 4, 4, 5, 5]),
     (13, [3, 4, 5, 6, 6]), (14, [4, 5, 5, 6, 6]), (15, [4, 5, 5, 6, 6]), (16, [4, 5, 6, 7, 7]),
     (17, [5, 6, 6, 7, 7]), (18, [5, 6, 6, 7, 7]), (19, [6, 7, 7, 8, 8]), (20, [6, 7, 7, 8, 8])]"

definition MAX_REJECTIONS :: nat where
  "MAX_REJECTIONS = 5"

definition MISSIONS_TO_SUCCEED :: nat where
  "MISSIONS_TO_SUCCEED = 3"

definition MISSIONS_TO_FAIL :: nat where
  "MISSIONS_TO_FAIL = 3"


section \<open>Data model (game/Room.ts)\<close>

text \<open>
  \<^verbatim>\<open>GamePhase\<close> is a union of string literals, but \<^verbatim>\<open>resolveMission\<close> adopts whatever
  string a hook returns (\<^verbatim>\<open>hookResult.nextPhase as GamePhase\<close>); \<open>OtherPhase s\<close> stands for
  a string \<open>s\<close> outside the seven literals (the Inquisidor expansion uses one).
\<close>

datatype GamePhase =
  LOBBY | TEAM_SELECTION | VOTE | MISSION | ASSASSINATION | RESULTS | GAME_OVER
  | OtherPhase string

datatype Role = RESISTANCE | SPY

datatype SpecialRole = MERLIN | ASSASSIN

text \<open>
  \<open>id_sock\<close> is the field \<^verbatim>\<open>id\<close> (the socket id, which changes on reconnect), \<open>playerId\<close> the
  permanent id. An absent or \<^verbatim>\<open>null\<close> role is \<open>None\<close>.
\<close>

record Player =
  id_sock :: string
  playerId :: string
  nickname :: string
  role :: "Role option"
  specialRole :: "SpecialRole option"
  isLeader :: bool

text \<open>
  A JavaScript \<^verbatim>\<open>Map<string, boolean>\<close> keeps its entries in insertion order: an association
  list, written only through \<open>map_set\<close>.
\<close>

type_synonym bool_map = "(string \<times> bool) list"

fun map_set :: "string \<Rightarrow> bool \<Rightarrow> bool_map \<Rightarrow> bool_map" where
  "map_set k v [] = [(k, v)]"
| "map_set k v ((k', v') # m) = (if k' = k then (k, v) # m else (k', v') # map_set k v m)"

text \<open>
  \<open>currentLeaderIndex\<close> is a JavaScript number: \<open>None\<close> is \<^verbatim>\<open>NaN\<close>, which
  \<^verbatim>\<open>(i + 1) % this.players.length\<close> yields on an empty roster. \<open>hookManager\<close> is the
  reference to the room's HookManager object: its address in the store of HookManagers
  (\<open>hookManagers\<close> of the GameManager below).
  Timestamps are milliseconds.
\<close>

record Room =
  id_room :: string
  players :: "Player list"
  maxPlayers :: nat
  minPlayers :: nat
  expansions :: "string list"
  createdAt :: nat
  lastActivityAt :: nat
  loopStartAt :: "nat option"
  phase :: GamePhase
  currentLeaderIndex :: "nat option"
  currentMissionIndex :: nat
  failedMissions :: nat
  succeededMissions :: nat
  missionHistory :: "(bool \<times> nat) list"
  assassinationTarget :: "string option"
  hookManager :: nat
  selectedTeam :: "string list"
  votes :: bool_map
  voteRejections :: nat
  missionActions :: bool_map

text \<open>The only exception the Room raises: reading a property of \<^verbatim>\<open>undefined\<close>.\<close>

datatype error = TypeError

text \<open>JavaScript truthiness of a string: the empty string is falsy.\<close>

definition truthy :: "string \<Rightarrow> bool" where
  "truthy s = (s \<noteq> [])"

text \<open>
  The constructor. \<open>hm\<close> is the address of the HookManager the room gets (the one the
  caller passes, or the one \<^verbatim>\<open>hookManager || new HookManager()\<close> allocates); \<open>now\<close> is
  \<^verbatim>\<open>Date.now()\<close>.
\<close>

definition Room_new :: "string \<Rightarrow> nat option \<Rightarrow> string list option \<Rightarrow> nat \<Rightarrow> nat \<Rightarrow> Room" where
  "Room_new rid minP exps hm now =
    \<lparr> id_room = rid, players = [], maxPlayers = MAX_PLAYERS,
      minPlayers = (case minP of None \<Rightarrow> MIN_PLAYERS | Some m \<Rightarrow> m),
      expansions = (case exps of None \<Rightarrow> [] | Some es \<Rightarrow> es),
      createdAt = now, lastActivityAt = now, loopStartAt = None,
      phase = LOBBY, currentLeaderIndex = Some 0, currentMissionIndex = 0,
      failedMissions = 0, succeededMissions = 0, missionHistory = [],
      assassinationTarget = None, hookManager = hm,
      selectedTeam = [], votes = [], voteRejections = 0, missionActions = [] \<rparr>"


section \<open>Room: roster operations\<close>

text \<open>\<^verbatim>\<open>playerId: playerId || id\<close>: an absent or empty \<^verbatim>\<open>playerId\<close> falls back to the socket id.\<close>

definition addPlayer :: "string \<Rightarrow> string \<Rightarrow> string option \<Rightarrow> nat \<Rightarrow> Room \<Rightarrow> Player \<times> Room" where
  "addPlayer sid nick pid now r =
    (let player = \<lparr> id_sock = sid,
                     playerId = (case pid of None \<Rightarrow> sid | Some p \<Rightarrow> if truthy p then p else sid),
                     nickname = nick, role = None, specialRole = None, isLeader = False \<rparr>
     in (player, r\<lparr> players := players r @ [player], lastActivityAt := now \<rparr>))"

definition removePlayer :: "string \<Rightarrow> nat \<Rightarrow> Room \<Rightarrow> Room" where
  "removePlayer sid now r =
    r\<lparr> players := filter (\<lambda>p. id_sock p \<noteq> sid) (players r), lastActivityAt := now \<rparr>"

definition getPlayer :: "Room \<Rightarrow> string \<Rightarrow> Player option" where
  "getPlayer r sid = find (\<lambda>p. id_sock p = sid) (players r)"

definition getPlayerByPlayerId :: "Room \<Rightarrow> string \<Rightarrow> Player option" where
  "getPlayerByPlayerId r pid = find (\<lambda>p. playerId p = pid) (players r)"

text \<open>
  \<^verbatim>\<open>player.id = newSocketId\<close> mutates the object \<^verbatim>\<open>find\<close> returned: the first roster entry
  with that \<^verbatim>\<open>playerId\<close>.
\<close>

fun set_first_id :: "string \<Rightarrow> string \<Rightarrow> Player list \<Rightarrow> Player list" where
  "set_first_id pid new [] = []"
| "set_first_id pid new (p # ps) =
    (if playerId p = pid then p\<lparr> id_sock := new \<rparr> # ps else p # set_first_id pid new ps)"

definition reconnectPlayer :: "string \<Rightarrow> string \<Rightarrow> nat \<Rightarrow> Room \<Rightarrow> bool \<times> Room" where
  "reconnectPlayer pid newSocketId now r =
    (case getPlayerByPlayerId r pid of
       Some player \<Rightarrow>
         (True, r\<lparr> players := set_first_id pid newSocketId (players r), lastActivityAt := now \<rparr>)
     | None \<Rightarrow> (False, r))"


section \<open>Room: leadership\<close>

text \<open>
  \<^verbatim>\<open>this.players.forEach((p) => (p.isLeader = false)); this.players[i].isLeader = true\<close>.
  When \<^verbatim>\<open>this.players[i]\<close> is \<^verbatim>\<open>undefined\<close> (index out of range or \<^verbatim>\<open>NaN\<close>) the
  assignment throws after the flags were cleared and before the timestamp is written.
\<close>

definition updateLeader :: "nat \<Rightarrow> Room \<Rightarrow> (error + unit) \<times> Room" where
  "updateLeader now r =
    (let cleared = map (\<lambda>p. p\<lparr> isLeader := False \<rparr>) (players r) in
     case currentLeaderIndex r of
       Some i \<Rightarrow>
         if i < length cleared
         then (Inr (), r\<lparr> players := cleared[i := (cleared ! i)\<lparr> isLeader := True \<rparr>],
                          lastActivityAt := now \<rparr>)
         else (Inl TypeError, r\<lparr> players := cleared \<rparr>)
     | None \<Rightarrow> (Inl TypeError, r\<lparr> players := cleared \<rparr>))"

text \<open>\<^verbatim>\<open>(this.currentLeaderIndex + 1) % this.players.length\<close>; \<^verbatim>\<open>x % 0\<close> and \<^verbatim>\<open>NaN % n\<close> are \<^verbatim>\<open>NaN\<close>.\<close>

definition next_index :: "nat option \<Rightarrow> nat \<Rightarrow> nat option" where
  "next_index i n = (case i of None \<Rightarrow> None | Some k \<Rightarrow> if n = 0 then None else Some ((k + 1) mod n))"

definition nextTurn :: "nat \<Rightarrow> Room \<Rightarrow> (error + unit) \<times> Room" where
  "nextTurn now r =
    (let r1 = r\<lparr> currentLeaderIndex := next_index (currentLeaderIndex r) (length (players r)) \<rparr> in
     case updateLeader now r1 of
       (Inl e, r2) \<Rightarrow> (Inl e, r2)
     | (Inr u, r2) \<Rightarrow> (Inr (), r2\<lparr> phase := TEAM_SELECTION, selectedTeam := [], votes := [] \<rparr>))"


section \<open>Room: team selection and voting\<close>

text \<open>
  \<^verbatim>\<open>this.missionConfig[this.players.length]?.[this.currentMissionIndex] || 0\<close>: a missing
  row or column gives 0.
\<close>

definition getCurrentMissionSize :: "Room \<Rightarrow> nat" where
  "getCurrentMissionSize r =
    (case map_of MISSION_CONFIG (length (players r)) of
       None \<Rightarrow> 0
     | Some row \<Rightarrow> if currentMissionIndex r < length row then row ! currentMissionIndex r else 0)"

text \<open>The validation loop of \<^verbatim>\<open>selectTeam\<close>: \<open>None\<close> is the early \<^verbatim>\<open>return false\<close>.\<close>

fun resolve_ids :: "Room \<Rightarrow> string list \<Rightarrow> string list option" where
  "resolve_ids r [] = Some []"
| "resolve_ids r (sid # sids) =
    (case getPlayer r sid of
       None \<Rightarrow> None
     | Some player \<Rightarrow> (case resolve_ids r sids of
                        None \<Rightarrow> None
                      | Some pids \<Rightarrow> Some (playerId player # pids)))"

definition selectTeam :: "string list \<Rightarrow> nat \<Rightarrow> Room \<Rightarrow> bool \<times> Room" where
  "selectTeam socketIds now r =
    (let requiredSize = getCurrentMissionSize r in
     if length socketIds \<noteq> requiredSize then (False, r)
     else case resolve_ids r socketIds of
            None \<Rightarrow> (False, r)
          | Some playerIds \<Rightarrow>
              (True, r\<lparr> selectedTeam := playerIds, phase := VOTE, lastActivityAt := now \<rparr>))"

text \<open>\<^verbatim>\<open>this.getPlayer(socketId)?.playerId\<close>; the callers test the result for truthiness.\<close>

definition getPlayerIdFromSocket :: "Room \<Rightarrow> string \<Rightarrow> string option" where
  "getPlayerIdFromSocket r socketId = map_option playerId (getPlayer r socketId)"

definition getSocketIdFromPlayerId :: "Room \<Rightarrow> string \<Rightarrow> string option" where
  "getSocketIdFromPlayerId r pid = map_option id_sock (getPlayerByPlayerId r pid)"

definition submitVote :: "string \<Rightarrow> bool \<Rightarrow> nat \<Rightarrow> Room \<Rightarrow> Room" where
  "submitVote socketId approve now r =
    (case getPlayerIdFromSocket r socketId of
       None \<Rightarrow> r
     | Some pid \<Rightarrow>
         if \<not> truthy pid then r
         else r\<lparr> votes := map_set pid approve (votes r), lastActivityAt := now \<rparr>)"


text \<open>The \<^verbatim>\<open>forEach\<close> loop of \<^verbatim>\<open>tallyVotes\<close>, with its two counters.\<close>

fun count_votes :: "bool_map \<Rightarrow> nat \<Rightarrow> nat \<Rightarrow> nat \<times> nat" where
  "count_votes [] approveCount rejectCount = (approveCount, rejectCount)"
| "count_votes ((k, vote) # m) approveCount rejectCount =
    (if vote then count_votes m (approveCount + 1) rejectCount
     else count_votes m approveCount (rejectCount + 1))"

record TallyResult =
  approved :: bool
  approveCount :: nat
  rejectCount :: nat
  penaltyApplied :: bool

text \<open>
  The room is returned in both outcomes: an exception leaves the object as it was at the
  throw (the streak already incremented, the votes not cleared).
\<close>

definition tallyVotes :: "nat \<Rightarrow> Room \<Rightarrow> (error + TallyResult) \<times> Room" where
  "tallyVotes now r =
    (let (approveCount, rejectCount) = count_votes (votes r) 0 0;
         approved = (approveCount > rejectCount);
         finish = (\<lambda>penalty r'.
           (Inr \<lparr> approved = approved, approveCount = approveCount,
                  rejectCount = rejectCount, penaltyApplied = penalty \<rparr>,
            r'\<lparr> votes := [], lastActivityAt := now \<rparr>))
     in
     if \<not> approved then
       (let r1 = r\<lparr> voteRejections := voteRejections r + 1 \<rparr> in
        if voteRejections r1 \<ge> MAX_REJECTIONS
        then finish True (r1\<lparr> failedMissions := MISSIONS_TO_FAIL, phase := GAME_OVER,
                                voteRejections := 0 \<rparr>)
        else (case nextTurn now r1 of
                (Inl e, r2) \<Rightarrow> (Inl e, r2)
              | (Inr u, r2) \<Rightarrow> finish False r2))
     else finish False (r\<lparr> phase := MISSION \<rparr>))"


section \<open>Room: missions and the winner\<close>

definition submitMissionAction :: "string \<Rightarrow> bool \<Rightarrow> nat \<Rightarrow> Room \<Rightarrow> bool \<times> Room" where
  "submitMissionAction socketId success now r =
    (case getPlayerIdFromSocket r socketId of
       None \<Rightarrow> (False, r)
     | Some pid \<Rightarrow>
         if \<not> truthy pid then (False, r)
         else if pid \<notin> set (selectedTeam r) then (False, r)
         else (True, r\<lparr> missionActions := map_set pid success (missionActions r),
                          lastActivityAt := now \<rparr>))"

text \<open>\<^verbatim>\<open>merlin?.id\<close> of the first player whose special role is MERLIN.\<close>

definition merlin_id :: "Room \<Rightarrow> string option" where
  "merlin_id r = map_option id_sock (find (\<lambda>p. specialRole p = Some MERLIN) (players r))"

definition getWinner :: "Room \<Rightarrow> Role option" where
  "getWinner r =
    (if phase r \<noteq> GAME_OVER then None
     else if (case assassinationTarget r of
                None \<Rightarrow> False
              | Some t \<Rightarrow> truthy t \<and> merlin_id r = Some t) then Some SPY
     else if succeededMissions r \<ge> MISSIONS_TO_SUCCEED then Some RESISTANCE
     else if failedMissions r \<ge> MISSIONS_TO_FAIL then Some SPY
     else None)"

text \<open>\<^verbatim>\<open>merlinId = merlin?.id || null\<close>: an empty socket id reads as \<^verbatim>\<open>null\<close>.\<close>

definition handleAssassination :: "string \<Rightarrow> Room \<Rightarrow> (bool \<times> string option) \<times> Room" where
  "handleAssassination targetId r =
    (let merlinId = (case merlin_id r of
                       None \<Rightarrow> None
                     | Some m \<Rightarrow> if truthy m then Some m else None)
     in ((merlinId = Some targetId, merlinId),
         r\<lparr> assassinationTarget := Some targetId, phase := GAME_OVER \<rparr>))"


section \<open>HookManager (game/hooks/HookManager.ts)\<close>

datatype GameHook =
  game_start | game_end | roles_assign | team_select | vote_submit | vote_tally
  | mission_submit | mission_resolve | player_join | player_disconnect | state_sync
  | game_reset

text \<open>
  The context passed between callbacks. The fields the Room and the pipeline read are
  named; every other property (\<^verbatim>\<open>[key: string]: any\<close>) lives in the record's extension.
  An absent \<^verbatim>\<open>stopPropagation\<close> is \<open>False\<close>.
\<close>

record HookContext =
  nextPhase :: "GamePhase option"
  result :: "(bool \<times> nat) option"
  stopPropagation :: bool

text \<open>
  A callback (awaited when asynchronous) either returns a context or throws. The context
  is one mutable object and the callbacks of the repository write it in place
  (\<^verbatim>\<open>context.nextPhase = "ASSASSINATION"; return context\<close>), so a callback that throws
  may have written it before: \<open>Threw\<close> carries the contents of the object the callback was
  given, as they are at the throw, and \<open>Returned\<close> those of the object it returned (the
  same one or another). A callback also holds a reference to the room
  (\<^verbatim>\<open>context.room\<close>) and may mutate it, so it maps the state \<open>'w\<close> it can reach to a new
  one, in both outcomes.
\<close>

datatype 'c cb_outcome = Returned 'c | Threw 'c

type_synonym ('c, 'w) HookCallback = "'c \<Rightarrow> 'w \<Rightarrow> 'c cb_outcome \<times> 'w"

text \<open>\<^verbatim>\<open>hooks: Map<GameHook, HookCallback[]>\<close>.\<close>

type_synonym 'cb HookManager = "GameHook \<Rightarrow> 'cb list option"

definition HookManager_new :: "'cb HookManager" where
  "HookManager_new = (\<lambda>h. None)"

definition hm_register :: "GameHook \<Rightarrow> 'cb \<Rightarrow> 'cb HookManager \<Rightarrow> 'cb HookManager" where
  "hm_register hookName callback hm =
    (let hm1 = (if hm hookName = None then hm(hookName \<mapsto> []) else hm)
     in hm1(hookName \<mapsto> the (hm1 hookName) @ [callback]))"

text \<open>
  The loop of \<^verbatim>\<open>trigger\<close>: \<^verbatim>\<open>try { result = await callback(result); if
  (result.stopPropagation) break } catch (error) { console.error(...) }\<close>; \<open>res\<close> is the
  variable \<^verbatim>\<open>result\<close>. When the callback throws the assignment does not happen:
  \<^verbatim>\<open>result\<close> still refers to the object the callback was given, with what the callback
  wrote to it, and the loop goes on from there.
\<close>

fun run_callbacks ::
  "('a HookContext_scheme, 'w) HookCallback list \<Rightarrow> 'a HookContext_scheme \<Rightarrow> 'w
    \<Rightarrow> 'a HookContext_scheme \<times> 'w" where
  "run_callbacks [] res w = (res, w)"
| "run_callbacks (callback # callbacks) res w =
    (case callback res w of
       (Returned res', w') \<Rightarrow>
         if stopPropagation res' then (res', w') else run_callbacks callbacks res' w'
     | (Threw res', w') \<Rightarrow> run_callbacks callbacks res' w')"

definition trigger ::
  "('a HookContext_scheme, 'w) HookCallback HookManager \<Rightarrow> GameHook \<Rightarrow> 'a HookContext_scheme
    \<Rightarrow> 'w \<Rightarrow> 'a HookContext_scheme \<times> 'w" where
  "trigger hm hookName context w =
    (let callbacks = (case hm hookName of None \<Rightarrow> [] | Some cbs \<Rightarrow> cbs) in
     if length callbacks = 0 then (context, w)
     else run_callbacks callbacks context w)"

definition hm_clear :: "GameHook option \<Rightarrow> 'cb HookManager \<Rightarrow> 'cb HookManager" where
  "hm_clear hookName hm =
    (case hookName of Some h \<Rightarrow> hm(h := None) | None \<Rightarrow> (\<lambda>h. None))"

definition getCallbackCount :: "'cb HookManager \<Rightarrow> GameHook \<Rightarrow> nat" where
  "getCallbackCount hm hookName = (case hm hookName of None \<Rightarrow> 0 | Some cbs \<Rightarrow> length cbs)"

definition hasCallbacks :: "'cb HookManager \<Rightarrow> GameHook \<Rightarrow> bool" where
  "hasCallbacks hm hookName = (getCallbackCount hm hookName > 0)"


section \<open>Room: resolving a mission\<close>

text \<open>The first \<^verbatim>\<open>forEach\<close> of \<^verbatim>\<open>resolveMission\<close>: \<^verbatim>\<open>if (!action) failCount++\<close>.\<close>

fun count_fails :: "bool_map \<Rightarrow> nat \<Rightarrow> nat" where
  "count_fails [] failCount = failCount"
| "count_fails ((k, action) # m) failCount =
    (if \<not> action then count_fails m (failCount + 1) else count_fails m failCount)"

text \<open>
  The key an action is returned under: the player's current socket id when the player is
  on the roster and that id is truthy, the \<^verbatim>\<open>playerId\<close> otherwise.
\<close>

definition result_key :: "Room \<Rightarrow> string \<Rightarrow> string" where
  "result_key r pid =
    (case getSocketIdFromPlayerId r pid of
       None \<Rightarrow> pid
     | Some sid \<Rightarrow> if truthy sid then sid else pid)"

text \<open>The second \<^verbatim>\<open>forEach\<close>: \<^verbatim>\<open>votesSocketIds.set(key, action)\<close> for each recorded action.\<close>

fun convert_keys :: "Room \<Rightarrow> bool_map \<Rightarrow> bool_map \<Rightarrow> bool_map" where
  "convert_keys r [] votesSocketIds = votesSocketIds"
| "convert_keys r ((pid, action) # m) votesSocketIds =
    convert_keys r m (map_set (result_key r pid) action votesSocketIds)"

record MissionResult =
  success :: bool
  failCount :: nat
  votes_out :: bool_map

text \<open>\<^verbatim>\<open>if (hookResult.nextPhase)\<close>: an absent or empty phase string is falsy.\<close>

definition phase_truthy :: "GamePhase option \<Rightarrow> bool" where
  "phase_truthy p = (case p of None \<Rightarrow> False | Some (OtherPhase s) \<Rightarrow> truthy s | Some q \<Rightarrow> True)"

text \<open>
  \<open>hm\<close> is the HookManager object the room's \<open>hookManager\<close> field refers to. \<open>votes_out\<close> is
  the field \<^verbatim>\<open>votes\<close> of the returned object.
\<close>

definition resolveMission ::
  "(HookContext, Room) HookCallback HookManager \<Rightarrow> nat \<Rightarrow> Room
    \<Rightarrow> (error + MissionResult) \<times> Room" where
  "resolveMission hm now r =
    (let failCount = count_fails (missionActions r) 0;
         success = (failCount = 0);
         r1 = (if success then r\<lparr> succeededMissions := succeededMissions r + 1 \<rparr>
               else r\<lparr> failedMissions := failedMissions r + 1 \<rparr>);
         r2 = r1\<lparr> missionHistory := missionHistory r1 @ [(success, failCount)] \<rparr>;
         votesSocketIds = convert_keys r2 (missionActions r2) [];
         r3 = r2\<lparr> missionActions := [] \<rparr>;
         (nextPhase0, r4) =
           (if failedMissions r3 \<ge> MISSIONS_TO_FAIL then (GAME_OVER, r3)
            else if succeededMissions r3 \<ge> MISSIONS_TO_SUCCEED then (GAME_OVER, r3)
            else (TEAM_SELECTION, r3\<lparr> currentMissionIndex := currentMissionIndex r3 + 1 \<rparr>));
         (hookResult, r5) =
           trigger hm mission_resolve
             \<lparr> nextPhase = Some nextPhase0, result = Some (success, failCount),
               stopPropagation = False \<rparr> r4;
         r6 = r5\<lparr> phase := (if phase_truthy (nextPhase hookResult)
                               then the (nextPhase hookResult) else nextPhase0) \<rparr>;
         res = \<lparr> success = success, failCount = failCount, votes_out = votesSocketIds \<rparr>
     in
     if phase r6 = TEAM_SELECTION then
       (case nextTurn now r6 of
          (Inl e, r7) \<Rightarrow> (Inl e, r7)
        | (Inr u, r7) \<Rightarrow> (Inr res, r7))
     else (Inr res, r6))"



section \<open>Sequences of tallies\<close>

text \<open>
  A vote lacks a strict approval majority when the approvals do not outnumber the
  rejections (\<^verbatim>\<open>approved = approveCount > rejectCount\<close>; a tie is a rejection).
\<close>

definition rejected :: "bool_map \<Rightarrow> bool" where
  "rejected vs = (\<not> length (filter snd vs) > length (filter (\<lambda>kv. \<not> snd kv) vs))"

text \<open>
  A sequence of \<^verbatim>\<open>tallyVotes\<close> calls on one room: each round gives the votes recorded when
  the tally runs and the clock. The room carries on after an exception, as the object does.
\<close>

fun run_tallies :: "(bool_map \<times> nat) list \<Rightarrow> Room \<Rightarrow> Room" where
  "run_tallies [] r = r"
| "run_tallies ((vs, now) # rounds) r = run_tallies rounds (snd (tallyVotes now (r\<lparr> votes := vs \<rparr>)))"


section \<open>Runs of the pipeline that no callback stops\<close>

text \<open>
  \<open>not_stopped callbacks res w\<close>: along the run of \<open>callbacks\<close> from \<open>res\<close> no callback returns
  a context with \<^verbatim>\<open>stopPropagation\<close> set, so the loop reaches the end of the list.
\<close>

fun not_stopped ::
  "('a HookContext_scheme, 'w) HookCallback list \<Rightarrow> 'a HookContext_scheme \<Rightarrow> 'w \<Rightarrow> bool" where
  "not_stopped [] res w = True"
| "not_stopped (callback # callbacks) res w =
    (case callback res w of
       (Returned res', w') \<Rightarrow> \<not> stopPropagation res' \<and> not_stopped callbacks res' w'
     | (Threw res', w') \<Rightarrow> not_stopped callbacks res' w')"


section \<open>Expansions and the GameManager (game/expansions, game/GameManager.ts)\<close>

text \<open>
  An expansion's \<^verbatim>\<open>install(hookManager)\<close> is a sequence of \<^verbatim>\<open>hookManager.register\<close> calls on
  the manager it is given: \<open>registrations\<close> lists them in order. The display strings
  \<^verbatim>\<open>name\<close> and \<^verbatim>\<open>version\<close> are left out.
\<close>

record 'cb ExpansionPlugin =
  exp_id :: string
  registrations :: "(GameHook \<times> 'cb) list"

definition install :: "'cb ExpansionPlugin \<Rightarrow> 'cb HookManager \<Rightarrow> 'cb HookManager" where
  "install expansion hm = fold (\<lambda>(hookName, callback). hm_register hookName callback)
                               (registrations expansion) hm"

text \<open>
  The bodies of the seven callbacks the three expansions register (role draws, state views
  and the investigation token are not modelled): a parameter of the table below.
\<close>

record 'cb expansion_callbacks =
  merlin_roles_assign :: 'cb
  merlin_mission_resolve :: 'cb
  merlin_state_sync :: 'cb
  blind_spies_state_sync :: 'cb
  inquisidor_game_start :: 'cb
  inquisidor_mission_resolve :: 'cb
  inquisidor_state_sync :: 'cb

definition MerlinAssassinExpansion :: "'cb expansion_callbacks \<Rightarrow> 'cb ExpansionPlugin" where
  "MerlinAssassinExpansion cbs =
    \<lparr> exp_id = ''merlin-assassin'',
      registrations = [(roles_assign, merlin_roles_assign cbs),
                       (mission_resolve, merlin_mission_resolve cbs),
                       (state_sync, merlin_state_sync cbs)] \<rparr>"

definition BlindSpiesExpansion :: "'cb expansion_callbacks \<Rightarrow> 'cb ExpansionPlugin" where
  "BlindSpiesExpansion cbs =
    \<lparr> exp_id = ''blind-spies'',
      registrations = [(state_sync, blind_spies_state_sync cbs)] \<rparr>"

definition InquisidorExpansion :: "'cb expansion_callbacks \<Rightarrow> 'cb ExpansionPlugin" where
  "InquisidorExpansion cbs =
    \<lparr> exp_id = ''inquisidor'',
      registrations = [(game_start, inquisidor_game_start cbs),
                       (mission_resolve, inquisidor_mission_resolve cbs),
                       (state_sync, inquisidor_state_sync cbs)] \<rparr>"

text \<open>
  \<^verbatim>\<open>AVAILABLE_EXPANSIONS[id]\<close> is a property read on an object literal: an own key gives
  the plugin, a key inherited from \<^verbatim>\<open>Object.prototype\<close> gives a truthy value without an
  \<^verbatim>\<open>install\<close> method, any other key gives \<^verbatim>\<open>undefined\<close>.
\<close>

datatype 'cb lookup = Own "'cb ExpansionPlugin" | Inherited | Absent

definition object_prototype_keys :: "string list" where
  "object_prototype_keys =
    [''constructor'', ''toString'', ''toLocaleString'', ''valueOf'', ''hasOwnProperty'',
     ''isPrototypeOf'', ''propertyIsEnumerable'', ''__proto__'', ''__defineGetter__'',
     ''__defineSetter__'', ''__lookupGetter__'', ''__lookupSetter__'']"

definition AVAILABLE_EXPANSIONS :: "'cb expansion_callbacks \<Rightarrow> string \<Rightarrow> 'cb lookup" where
  "AVAILABLE_EXPANSIONS cbs k =
    (if k = ''merlin-assassin'' then Own (MerlinAssassinExpansion cbs)
     else if k = ''blind-spies'' then Own (BlindSpiesExpansion cbs)
     else if k = ''inquisidor'' then Own (InquisidorExpansion cbs)
     else if k \<in> set object_prototype_keys then Inherited
     else Absent)"

text \<open>
  \<^verbatim>\<open>installExpansions\<close>: \<^verbatim>\<open>if (expansion) expansion.install(hookManager, io) else
  console.warn(...)\<close>; calling the missing \<^verbatim>\<open>install\<close> of an inherited value throws and ends
  the \<^verbatim>\<open>forEach\<close>.
\<close>

fun installExpansions ::
  "'cb expansion_callbacks \<Rightarrow> string list \<Rightarrow> 'cb HookManager \<Rightarrow> (error + unit) \<times> 'cb HookManager" where
  "installExpansions cbs [] hm = (Inr (), hm)"
| "installExpansions cbs (k # ks) hm =
    (case AVAILABLE_EXPANSIONS cbs k of
       Own expansion \<Rightarrow> installExpansions cbs ks (install expansion hm)
     | Inherited \<Rightarrow> (Inl TypeError, hm)
     | Absent \<Rightarrow> installExpansions cbs ks hm)"

text \<open>
  The objects a GameManager reaches: its \<^verbatim>\<open>rooms\<close> map and the HookManager objects the
  rooms refer to. \<open>hookManagers ! a\<close> is the HookManager at address \<open>a\<close>;
  \<^verbatim>\<open>new HookManager()\<close> allocates the next address.
\<close>

record 'cb GameManager =
  rooms :: "string \<Rightarrow> Room option"
  hookManagers :: "'cb HookManager list"

definition GameManager_new :: "'cb GameManager" where
  "GameManager_new = \<lparr> rooms = (\<lambda>k. None), hookManagers = [] \<rparr>"

text \<open>
  \<open>roomId\<close> is the value \<^verbatim>\<open>generateRoomId()\<close> draws. When the installation throws, no room
  is built or stored; the HookManager allocated for it stays behind, unreferenced.
\<close>

definition createRoom ::
  "'cb expansion_callbacks \<Rightarrow> string \<Rightarrow> nat option \<Rightarrow> string list option \<Rightarrow> nat
    \<Rightarrow> 'cb GameManager \<Rightarrow> (error + Room) \<times> 'cb GameManager" where
  "createRoom cbs roomId minP exps now gm =
    (let roomHookManager = length (hookManagers gm);
         gm1 = gm\<lparr> hookManagers := hookManagers gm @ [HookManager_new] \<rparr>;
         (installed, gm2) =
           (case exps of
              None \<Rightarrow> (Inr (), gm1)
            | Some es \<Rightarrow>
                if length es > 0 then
                  (case installExpansions cbs es (hookManagers gm1 ! roomHookManager) of
                     (out, hm) \<Rightarrow> (out, gm1\<lparr> hookManagers := (hookManagers gm1)[roomHookManager := hm] \<rparr>))
                else (Inr (), gm1))
     in case installed of
          Inl e \<Rightarrow> (Inl e, gm2)
        | Inr u \<Rightarrow>
            (let room = Room_new roomId minP exps roomHookManager now
             in (Inr room, gm2\<lparr> rooms := (rooms gm2)(roomId \<mapsto> room) \<rparr>)))"

definition getRoom :: "'cb GameManager \<Rightarrow> string \<Rightarrow> Room option" where
  "getRoom gm roomId = rooms gm roomId"

definition removeRoom :: "string \<Rightarrow> 'cb GameManager \<Rightarrow> 'cb GameManager" where
  "removeRoom roomId gm = gm\<lparr> rooms := (rooms gm)(roomId := None) \<rparr>"

text \<open>\<^verbatim>\<open>this.hookManager.trigger(hookName, context)\<close> inside a room.\<close>

definition room_trigger ::
  "('a HookContext_scheme, 'w) HookCallback GameManager \<Rightarrow> Room \<Rightarrow> GameHook
    \<Rightarrow> 'a HookContext_scheme \<Rightarrow> 'w \<Rightarrow> 'a HookContext_scheme \<times> 'w" where
  "room_trigger gm r hookName context w = trigger (hookManagers gm ! hookManager r) hookName context w"

text \<open>
  The states of a GameManager: rooms are created and removed, and a stored room changes by
  the Room's own operations, none of which assigns \<open>hookManager\<close>.
\<close>

inductive reachable :: "'cb expansion_callbacks \<Rightarrow> 'cb GameManager \<Rightarrow> bool" for cbs where
  init: "reachable cbs GameManager_new"
| create: "reachable cbs gm \<Longrightarrow> reachable cbs (snd (createRoom cbs roomId minP exps now gm))"
| remove: "reachable cbs gm \<Longrightarrow> reachable cbs (removeRoom roomId gm)"
| room_op: "reachable cbs gm \<Longrightarrow> rooms gm roomId = Some r \<Longrightarrow> hookManager r' = hookManager r
            \<Longrightarrow> reachable cbs (gm\<lparr> rooms := (rooms gm)(roomId \<mapsto> r') \<rparr>)"

text \<open>
  The two \<^verbatim>\<open>mission:resolve\<close> callbacks as the expansions write them: Merlin & Assassin turns
  a game won on missions into the assassination phase, Inquisidor inserts its investigation
  phase while the game goes on.
\<close>

definition merlin_mission_resolve_cb :: "(HookContext, Room) HookCallback" where
  "merlin_mission_resolve_cb context room =
    (Returned (if succeededMissions room \<ge> 3 \<and> nextPhase context = Some GAME_OVER
               then context\<lparr> nextPhase := Some ASSASSINATION \<rparr> else context), room)"

definition inquisidor_mission_resolve_cb :: "(HookContext, Room) HookCallback" where
  "inquisidor_mission_resolve_cb context room =
    (Returned (if nextPhase context \<noteq> Some GAME_OVER \<and> nextPhase context \<noteq> Some ASSASSINATION
               then context\<lparr> nextPhase := Some (OtherPhase ''INQUISITOR_INVESTIGATION'') \<rparr>
               else context), room)"

section \<open>Example rooms\<close>

text \<open>Five players with distinct socket and player ids, first mission, team selection.\<close>

definition room5 :: Room where
  "room5 =
    \<lparr> id_room = ''R'',
      players =
        [\<lparr> id_sock = ''s1'', playerId = ''p1'', nickname = ''a'', role = None,
           specialRole = None, isLeader = True \<rparr>,
         \<lparr> id_sock = ''s2'', playerId = ''p2'', nickname = ''b'', role = None,
           specialRole = None, isLeader = False \<rparr>,
         \<lparr> id_sock = ''s3'', playerId = ''p3'', nickname = ''c'', role = None,
           specialRole = None, isLeader = False \<rparr>,
         \<lparr> id_sock = ''s4'', playerId = ''p4'', nickname = ''d'', role = None,
           specialRole = None, isLeader = False \<rparr>,
         \<lparr> id_sock = ''s5'', playerId = ''p5'', nickname = ''e'', role = None,
           specialRole = None, isLeader = False \<rparr>],
      maxPlayers = 20, minPlayers = 1, expansions = [], createdAt = 0, lastActivityAt = 1,
      loopStartAt = None,
      phase = TEAM_SELECTION, currentLeaderIndex = Some 0, currentMissionIndex = 0,
      failedMissions = 0, succeededMissions = 0, missionHistory = [],
      assassinationTarget = None, hookManager = 0,
      selectedTeam = [], votes = [], voteRejections = 0, missionActions = [] \<rparr>"

text \<open>
  A one-player room built through the public operations: four rejected tallies, then three
  successful missions.
\<close>

definition room1 :: Room where
  "room1 = snd (addPlayer ''s1'' ''a'' (Some ''p1'') 1 (Room_new ''R'' None None 0 0))"

definition play_mission :: "nat \<Rightarrow> Room \<Rightarrow> Room" where
  "play_mission now r =
    snd (resolveMission HookManager_new now
      (snd (submitMissionAction ''s1'' True now (snd (selectTeam [''s1''] now r)))))"

definition room1_won :: Room where
  "room1_won =
    play_mission 8 (play_mission 7 (play_mission 6
      (snd (tallyVotes 5 (snd (tallyVotes 4 (snd (tallyVotes 3 (snd (tallyVotes 2 room1))))))))))"

text \<open>
  A one-player game in a room whose pipeline holds the \<^verbatim>\<open>mission:resolve\<close> callback of the
  Merlin & Assassin expansion, every step through the public operations: four proposals
  voted down, then three proposals approved and their missions passed. After the third
  mission the phase is \<open>ASSASSINATION\<close>: the game is not over. \<open>room1_fifth\<close> is that room
  after one more vote against was recorded.
\<close>

definition hm_merlin :: "(HookContext, Room) HookCallback HookManager" where
  "hm_merlin = hm_register mission_resolve merlin_mission_resolve_cb HookManager_new"

definition reject_round :: "nat \<Rightarrow> Room \<Rightarrow> Room" where
  "reject_round now r =
    snd (tallyVotes now (submitVote ''s1'' False now (snd (selectTeam [''s1''] now r))))"

definition mission_round :: "nat \<Rightarrow> Room \<Rightarrow> Room" where
  "mission_round now r =
    snd (resolveMission hm_merlin now
      (snd (submitMissionAction ''s1'' True now
        (snd (tallyVotes now (submitVote ''s1'' True now (snd (selectTeam [''s1''] now r))))))))"

definition room1_assassination :: Room where
  "room1_assassination =
    mission_round 8 (mission_round 7 (mission_round 6
      (reject_round 5 (reject_round 4 (reject_round 3 (reject_round 2 room1))))))"

definition room1_fifth :: Room where
  "room1_fifth = submitVote ''s1'' False 9 room1_assassination"

definition all_reject :: bool_map where
  "all_reject = [(''p1'', False), (''p2'', False), (''p3'', False), (''p4'', False), (''p5'', False)]"

definition three_approve :: bool_map where
  "three_approve = [(''p1'', True), (''p2'', True), (''p3'', True), (''p4'', False), (''p5'', False)]"


text \<open>
  Callbacks on one extension point. \<open>cb_fail\<close> throws at once; \<open>cb_write_fail\<close> writes
  \<^verbatim>\<open>context.nextPhase\<close> in place and then throws. The state they reach is a counter, so
  that the run shows which of them ran.
\<close>

definition cb_phase :: "(HookContext, nat) HookCallback" where
  "cb_phase ctx w = (Returned (ctx\<lparr> nextPhase := Some ASSASSINATION \<rparr>), w + 1)"

definition cb_fail :: "(HookContext, nat) HookCallback" where
  "cb_fail ctx w = (Threw ctx, w + 10)"

definition cb_write_fail :: "(HookContext, nat) HookCallback" where
  "cb_write_fail ctx w = (Threw (ctx\<lparr> nextPhase := Some ASSASSINATION \<rparr>), w + 10)"

definition cb_result :: "(HookContext, nat) HookCallback" where
  "cb_result ctx w = (Returned (ctx\<lparr> result := Some (True, 0) \<rparr>), w + 100)"

definition hm3 :: "(HookContext, nat) HookCallback HookManager" where
  "hm3 = hm_register mission_resolve cb_result
           (hm_register mission_resolve cb_fail
             (hm_register mission_resolve cb_phase HookManager_new))"

definition hm_fail :: "(HookContext, nat) HookCallback HookManager" where
  "hm_fail = hm_register mission_resolve cb_fail
               (hm_register mission_resolve cb_fail HookManager_new)"

definition hm_write_fail :: "(HookContext, nat) HookCallback HookManager" where
  "hm_write_fail = hm_register mission_resolve cb_result
                     (hm_register mission_resolve cb_write_fail HookManager_new)"

definition ctx0 :: HookContext where
  "ctx0 = \<lparr> nextPhase = Some TEAM_SELECTION, result = None, stopPropagation = False \<rparr>"

text \<open>
  Rooms with recorded mission actions, built through the public operations. In
  \<open>room3_team\<close> players A and B are on the mission and both have acted; B's \<open>playerId\<close> is
  the string that is A's socket id. \<open>room3_clash\<close> is that room after B disconnected for
  good. \<open>room1_empty\<close> is a one-player room after its only player acted and left.
\<close>

definition room3_team :: Room where
  "room3_team =
      snd (submitMissionAction ''B'' False 7
      (snd (submitMissionAction ''A'' True 6
      (snd (selectTeam [''A'', ''B''] 5
      (snd (addPlayer ''C'' ''c'' (Some ''u3'') 4
      (snd (addPlayer ''B'' ''b'' (Some ''A'') 3
      (snd (addPlayer ''A'' ''a'' (Some ''u1'') 2
      (Room_new ''R'' None None 0 1))))))))))))"

definition room3_clash :: Room where
  "room3_clash = removePlayer ''B'' 8 room3_team"

definition room1_empty :: Room where
  "room1_empty =
    removePlayer ''s1'' 4
      (snd (submitMissionAction ''s1'' True 3 (snd (selectTeam [''s1''] 2 room1))))"

text \<open>
  A sample of callback bodies (the five that are not modelled return their context), and a
  GameManager that created room A with Merlin & Assassin and then room B with Inquisidor.
\<close>

definition sample_callbacks :: "(HookContext, Room) HookCallback expansion_callbacks" where
  "sample_callbacks =
    \<lparr> merlin_roles_assign = (\<lambda>context room. (Returned context, room)),
      merlin_mission_resolve = merlin_mission_resolve_cb,
      merlin_state_sync = (\<lambda>context room. (Returned context, room)),
      blind_spies_state_sync = (\<lambda>context room. (Returned context, room)),
      inquisidor_game_start = (\<lambda>context room. (Returned context, room)),
      inquisidor_mission_resolve = inquisidor_mission_resolve_cb,
      inquisidor_state_sync = (\<lambda>context room. (Returned context, room)) \<rparr>"

definition gm_A :: "(HookContext, Room) HookCallback GameManager" where
  "gm_A = snd (createRoom sample_callbacks ''AAAAA'' None (Some [''merlin-assassin'']) 1
                 GameManager_new)"

definition gm_AB :: "(HookContext, Room) HookCallback GameManager" where
  "gm_AB = snd (createRoom sample_callbacks ''BBBBB'' None (Some [''inquisidor'']) 2 gm_A)"

definition room_A :: Room where
  "room_A = Room_new ''AAAAA'' None (Some [''merlin-assassin'']) 0 1"

definition room_B :: Room where
  "room_B = Room_new ''BBBBB'' None (Some [''inquisidor'']) 1 2"

definition ctx_over :: HookContext where
  "ctx_over = \<lparr> nextPhase = Some GAME_OVER, result = Some (True, 0), stopPropagation = False \<rparr>"

text \<open>Three players; the turn passed twice, so the third leads; then the third left.\<close>

definition room3_leader_left :: Room where
  "room3_leader_left =
    removePlayer ''C'' 7
      (snd (nextTurn 6
      (snd (nextTurn 5
      (snd (addPlayer ''C'' ''c'' (Some ''u3'') 4
      (snd (addPlayer ''B'' ''b'' (Some ''u2'') 3
      (snd (addPlayer ''A'' ''a'' (Some ''u1'') 2
      (Room_new ''R'' None None 0 1)))))))))))"





section \<open>Properties\<close>

subsection \<open>Helper lemmas\<close>

lemma resolve_ids_None_iff:
  "(resolve_ids r ids = None) = (\<exists>sid \<in> set ids. getPlayer r sid = None)"
  by (induction ids) (auto split: option.splits)

lemma resolve_ids_Some:
  "resolve_ids r ids = Some pids \<Longrightarrow> pids = map (\<lambda>sid. playerId (the (getPlayer r sid))) ids"
  by (induction ids arbitrary: pids) (auto split: option.splits)

text \<open>
  What \<^verbatim>\<open>selectTeam\<close> does, with the required size read from \<open>MISSION_CONFIG\<close> at the roster
  size and the mission index, and 0 where the table has no entry.
\<close>

lemma selectTeam_cases:
  "(fst (selectTeam ids now r) = False)
      = (length ids \<noteq> (case map_of MISSION_CONFIG (length (players r)) of
                           None \<Rightarrow> 0
                         | Some row \<Rightarrow> if currentMissionIndex r < length row
                                      then row ! currentMissionIndex r else 0)
         \<or> (\<exists>sid \<in> set ids. getPlayer r sid = None))
   \<and> (fst (selectTeam ids now r) = False \<longrightarrow> snd (selectTeam ids now r) = r)
   \<and> (fst (selectTeam ids now r) = True \<longrightarrow>
        selectedTeam (snd (selectTeam ids now r)) = map (\<lambda>sid. playerId (the (getPlayer r sid))) ids
        \<and> phase (snd (selectTeam ids now r)) = VOTE)"
proof -
  have "(fst (selectTeam ids now r) = False)
      = (length ids \<noteq> getCurrentMissionSize r \<or> (\<exists>sid \<in> set ids. getPlayer r sid = None))
   \<and> (fst (selectTeam ids now r) = False \<longrightarrow> snd (selectTeam ids now r) = r)
   \<and> (fst (selectTeam ids now r) = True \<longrightarrow>
        selectedTeam (snd (selectTeam ids now r)) = map (\<lambda>sid. playerId (the (getPlayer r sid))) ids
        \<and> phase (snd (selectTeam ids now r)) = VOTE)"
  proof (cases "length ids = getCurrentMissionSize r")
    case False
    then show ?thesis by (simp add: selectTeam_def)
  next
    case size_ok: True
    show ?thesis
    proof (cases "resolve_ids r ids")
      case None
      then have "\<exists>sid \<in> set ids. getPlayer r sid = None"
        by (simp add: resolve_ids_None_iff)
      with None size_ok show ?thesis by (simp add: selectTeam_def)
    next
      case (Some pids)
      then have all: "\<not> (\<exists>sid \<in> set ids. getPlayer r sid = None)"
        using resolve_ids_None_iff [of r ids] by simp
      from Some have "pids = map (\<lambda>sid. playerId (the (getPlayer r sid))) ids"
        by (rule resolve_ids_Some)
      with Some size_ok all show ?thesis by (simp add: selectTeam_def)
    qed
  qed
  then show ?thesis
    unfolding getCurrentMissionSize_def .
qed


lemma updateLeader_maxPlayers:
  "updateLeader now (r\<lparr> maxPlayers := m \<rparr>) = apsnd (\<lambda>r'. r'\<lparr> maxPlayers := m \<rparr>) (updateLeader now r)"
  by (simp add: updateLeader_def Let_def split: option.splits)

lemma nextTurn_maxPlayers:
  "nextTurn now (r\<lparr> maxPlayers := m \<rparr>) = apsnd (\<lambda>r'. r'\<lparr> maxPlayers := m \<rparr>) (nextTurn now r)"
  by (simp add: nextTurn_def updateLeader_def Let_def split: option.splits)

lemma tallyVotes_maxPlayers:
  "tallyVotes now (r\<lparr> maxPlayers := m \<rparr>) = apsnd (\<lambda>r'. r'\<lparr> maxPlayers := m \<rparr>) (tallyVotes now r)"
  by (simp add: tallyVotes_def nextTurn_def updateLeader_def Let_def split: option.splits prod.splits)

lemma count_votes_eq:
  "count_votes m a b = (a + length (filter snd m), b + length (filter (\<lambda>kv. \<not> snd kv) m))"
  by (induction m arbitrary: a b) auto

lemma tallyVotes_approved:
  "\<not> rejected (votes r) \<Longrightarrow>
    tallyVotes now r =
      (Inr \<lparr> approved = True, approveCount = length (filter snd (votes r)),
             rejectCount = length (filter (\<lambda>kv. \<not> snd kv) (votes r)), penaltyApplied = False \<rparr>,
       r\<lparr> phase := MISSION, votes := [], lastActivityAt := now \<rparr>)"
  by (simp add: tallyVotes_def count_votes_eq rejected_def Let_def)

lemma tally_at_maximum:
  "rejected (votes r) \<Longrightarrow> voteRejections r + 1 \<ge> MAX_REJECTIONS \<Longrightarrow>
    tallyVotes now r =
      (Inr \<lparr> approved = False, approveCount = length (filter snd (votes r)),
             rejectCount = length (filter (\<lambda>kv. \<not> snd kv) (votes r)), penaltyApplied = True \<rparr>,
       r\<lparr> voteRejections := 0, failedMissions := MISSIONS_TO_FAIL, phase := GAME_OVER,
          votes := [], lastActivityAt := now \<rparr>)"
  by (simp add: tallyVotes_def count_votes_eq rejected_def Let_def)

lemma nextTurn_voteRejections: "voteRejections (snd (nextTurn now r)) = voteRejections r"
  by (simp add: nextTurn_def updateLeader_def Let_def split: option.splits)

lemma tallyVotes_rejected_below:
  "rejected (votes r) \<Longrightarrow> voteRejections r + 1 < MAX_REJECTIONS \<Longrightarrow>
    voteRejections (snd (tallyVotes now r)) = voteRejections r + 1
    \<and> (\<forall>res. fst (tallyVotes now r) = Inr res \<longrightarrow> \<not> penaltyApplied res)"
  using nextTurn_voteRejections [of now "r\<lparr> voteRejections := voteRejections r + 1 \<rparr>"]
  by (auto simp: tallyVotes_def count_votes_eq rejected_def Let_def split: prod.splits sum.splits)

lemma tallyVotes_streak:
  "voteRejections (snd (tallyVotes now r)) =
     (if \<not> rejected (votes r) then voteRejections r
      else if voteRejections r + 1 \<ge> MAX_REJECTIONS then 0
      else voteRejections r + 1)"
proof (cases "rejected (votes r)")
  case False
  then show ?thesis by (simp add: tallyVotes_approved)
next
  case rej: True
  show ?thesis
  proof (cases "voteRejections r + 1 \<ge> MAX_REJECTIONS")
    case True
    with rej show ?thesis by (simp add: tally_at_maximum)
  next
    case False
    with rej tallyVotes_rejected_below [of r now] show ?thesis by simp
  qed
qed

lemma run_tallies_streak:
  "voteRejections r + length (filter (\<lambda>round. rejected (fst round)) rounds) < MAX_REJECTIONS \<Longrightarrow>
    voteRejections (run_tallies rounds r)
      = voteRejections r + length (filter (\<lambda>round. rejected (fst round)) rounds)"
proof (induction rounds arbitrary: r)
  case Nil
  then show ?case by simp
next
  case (Cons round rounds)
  obtain vs now where round: "round = (vs, now)" by (cases round)
  let ?r1 = "snd (tallyVotes now (r\<lparr> votes := vs \<rparr>))"
  let ?k = "length (filter (\<lambda>round. rejected (fst round)) rounds)"
  show ?case
  proof (cases "rejected vs")
    case True
    with Cons.prems round have bound: "voteRejections r + 1 + ?k < MAX_REJECTIONS" by simp
    then have step: "voteRejections ?r1 = voteRejections r + 1"
      using True by (simp add: tallyVotes_streak)
    with bound have "voteRejections ?r1 + ?k < MAX_REJECTIONS" by simp
    from Cons.IH [OF this] step round True show ?thesis by simp
  next
    case False
    with Cons.prems round have bound: "voteRejections r + ?k < MAX_REJECTIONS" by simp
    have step: "voteRejections ?r1 = voteRejections r"
      using False by (simp add: tallyVotes_streak)
    with bound have "voteRejections ?r1 + ?k < MAX_REJECTIONS" by simp
    from Cons.IH [OF this] step round False show ?thesis by simp
  qed
qed

lemma tallyVotes_drop_is_penalty:
  assumes "voteRejections (snd (tallyVotes now r)) < voteRejections r"
  shows "\<exists>res. fst (tallyVotes now r) = Inr res \<and> penaltyApplied res"
proof -
  from assms have rej: "rejected (votes r)" and top: "voteRejections r + 1 \<ge> MAX_REJECTIONS"
    by (auto simp: tallyVotes_streak split: if_splits)
  from tally_at_maximum [OF rej top, of now] show ?thesis by simp
qed

lemma example_votes: "rejected all_reject" "\<not> rejected three_approve"
  by (simp_all add: rejected_def all_reject_def three_approve_def)

lemma room1_won_eval:
  "room1_won =
    \<lparr> id_room = ''R'',
      players = [\<lparr> id_sock = ''s1'', playerId = ''p1'', nickname = ''a'', role = None,
                  specialRole = None, isLeader = True \<rparr>],
      maxPlayers = 20, minPlayers = 1, expansions = [], createdAt = 0, lastActivityAt = 8,
      loopStartAt = None,
      phase = GAME_OVER, currentLeaderIndex = Some 0, currentMissionIndex = 2,
      failedMissions = 0, succeededMissions = 3,
      missionHistory = [(True, 0), (True, 0), (True, 0)],
      assassinationTarget = None, hookManager = 0, selectedTeam = [''p1''],
      votes = [], voteRejections = 4, missionActions = [] \<rparr>"
  by code_simp

lemma room1_assassination_eval:
  "room1_assassination =
    \<lparr> id_room = ''R'',
      players = [\<lparr> id_sock = ''s1'', playerId = ''p1'', nickname = ''a'', role = None,
                  specialRole = None, isLeader = True \<rparr>],
      maxPlayers = 20, minPlayers = 1, expansions = [], createdAt = 0, lastActivityAt = 8,
      loopStartAt = None,
      phase = ASSASSINATION, currentLeaderIndex = Some 0, currentMissionIndex = 2,
      failedMissions = 0, succeededMissions = 3,
      missionHistory = [(True, 0), (True, 0), (True, 0)],
      assassinationTarget = None, hookManager = 0, selectedTeam = [''p1''],
      votes = [], voteRejections = 4, missionActions = [] \<rparr>"
  by code_simp

lemma room1_fifth_eval:
  "room1_fifth = room1_assassination\<lparr> votes := [(''p1'', False)], lastActivityAt := 9 \<rparr>"
  by code_simp

lemma set_first_id_index:
  "find (\<lambda>p. playerId p = pid) ps \<noteq> None \<Longrightarrow>
    \<exists>i < length ps. playerId (ps ! i) = pid \<and> (\<forall>j < i. playerId (ps ! j) \<noteq> pid)
      \<and> set_first_id pid new ps = ps[i := (ps ! i)\<lparr> id_sock := new \<rparr>]"
proof (induction ps)
  case Nil
  then show ?case by simp
next
  case (Cons p ps)
  show ?case
  proof (cases "playerId p = pid")
    case True
    then have "playerId ((p # ps) ! 0) = pid \<and> (\<forall>j < 0. playerId ((p # ps) ! j) \<noteq> pid)
      \<and> set_first_id pid new (p # ps) = (p # ps)[0 := ((p # ps) ! 0)\<lparr> id_sock := new \<rparr>]"
      by simp
    then show ?thesis by blast
  next
    case False
    with Cons.prems have "find (\<lambda>p. playerId p = pid) ps \<noteq> None" by simp
    from Cons.IH [OF this] obtain i where i: "i < length ps" "playerId (ps ! i) = pid"
      "\<forall>j < i. playerId (ps ! j) \<noteq> pid"
      "set_first_id pid new ps = ps[i := (ps ! i)\<lparr> id_sock := new \<rparr>]"
      by blast
    have "\<forall>j < Suc i. playerId ((p # ps) ! j) \<noteq> pid"
      using False i(3) by (auto simp: less_Suc_eq_0_disj)
    with i False have "Suc i < length (p # ps) \<and> playerId ((p # ps) ! Suc i) = pid
      \<and> (\<forall>j < Suc i. playerId ((p # ps) ! j) \<noteq> pid)
      \<and> set_first_id pid new (p # ps) = (p # ps)[Suc i := ((p # ps) ! Suc i)\<lparr> id_sock := new \<rparr>]"
      by simp
    then show ?thesis by blast
  qed
qed

lemma find_set_first_id:
  "find (\<lambda>p. playerId p = pid) (set_first_id pid new ps)
    = map_option (\<lambda>p. p\<lparr> id_sock := new \<rparr>) (find (\<lambda>p. playerId p = pid) ps)"
  by (induction ps) auto

lemma playerIds_set_first_id: "map playerId (set_first_id pid new ps) = map playerId ps"
  by (induction ps) auto




lemma run_callbacks_append:
  "not_stopped before res w \<Longrightarrow>
    run_callbacks (before @ rest) res w
      = run_callbacks rest (fst (run_callbacks before res w)) (snd (run_callbacks before res w))"
proof (induction before arbitrary: res w)
  case Nil
  then show ?case by simp
next
  case (Cons callback before)
  obtain out w' where step: "callback res w = (out, w')" by (cases "callback res w")
  show ?case
  proof (cases out)
    case (Returned res')
    with Cons.prems step have "\<not> stopPropagation res'" "not_stopped before res' w'" by simp_all
    with Cons.IH [of res' w'] step Returned show ?thesis by simp
  next
    case (Threw res')
    with Cons.prems step have "not_stopped before res' w'" by simp
    with Cons.IH [of res' w'] step Threw show ?thesis by simp
  qed
qed

lemma run_callbacks_all_throw:
  "\<forall>cb \<in> set cbs. \<forall>c v. fst (cb c v) = Threw c \<Longrightarrow> fst (run_callbacks cbs res w) = res"
proof (induction cbs arbitrary: w)
  case Nil
  then show ?case by simp
next
  case (Cons cb cbs)
  then have "fst (cb res w) = Threw res" by simp
  then obtain w' where "cb res w = (Threw res, w')" by (cases "cb res w") simp
  with Cons show ?case by simp
qed

lemma hm3_table: "hm3 mission_resolve = Some ([cb_phase] @ cb_fail # [cb_result])"
  by (simp add: hm3_def hm_register_def HookManager_new_def Let_def)

lemma createRoom_cases:
  obtains (threw) e hm where
      "createRoom cbs roomId minP exps now gm
        = (Inl e, gm\<lparr> hookManagers := hookManagers gm @ [hm] \<rparr>)"
  | (made) hm where
      "createRoom cbs roomId minP exps now gm
        = (Inr (Room_new roomId minP exps (length (hookManagers gm)) now),
           gm\<lparr> hookManagers := hookManagers gm @ [hm],
               rooms := (rooms gm)(roomId \<mapsto> Room_new roomId minP exps (length (hookManagers gm)) now) \<rparr>)"
      "hm = snd (installExpansions cbs (case exps of None \<Rightarrow> [] | Some es \<Rightarrow> es) HookManager_new)"
proof (cases exps)
  case None
  then have "createRoom cbs roomId minP exps now gm
        = (Inr (Room_new roomId minP exps (length (hookManagers gm)) now),
           gm\<lparr> hookManagers := hookManagers gm @ [HookManager_new],
               rooms := (rooms gm)(roomId \<mapsto> Room_new roomId minP exps (length (hookManagers gm)) now) \<rparr>)"
    by (simp add: createRoom_def Let_def)
  moreover from None
  have "HookManager_new = snd (installExpansions cbs (case exps of None \<Rightarrow> [] | Some es \<Rightarrow> es) HookManager_new)"
    by simp
  ultimately show ?thesis by (rule made)
next
  case (Some es)
  obtain out hm where inst: "installExpansions cbs es HookManager_new = (out, hm)"
    by (cases "installExpansions cbs es HookManager_new")
  show ?thesis
  proof (cases "es = []")
    case True
    with Some have "createRoom cbs roomId minP exps now gm
        = (Inr (Room_new roomId minP exps (length (hookManagers gm)) now),
           gm\<lparr> hookManagers := hookManagers gm @ [HookManager_new],
               rooms := (rooms gm)(roomId \<mapsto> Room_new roomId minP exps (length (hookManagers gm)) now) \<rparr>)"
      by (simp add: createRoom_def Let_def)
    moreover from True Some
    have "HookManager_new = snd (installExpansions cbs (case exps of None \<Rightarrow> [] | Some es \<Rightarrow> es) HookManager_new)"
      by simp
    ultimately show ?thesis by (rule made)
  next
    case False
    show ?thesis
    proof (cases out)
      case (Inl e)
      with Some False inst have "createRoom cbs roomId minP exps now gm
          = (Inl e, gm\<lparr> hookManagers := hookManagers gm @ [hm] \<rparr>)"
        by (simp add: createRoom_def Let_def)
      then show ?thesis by (rule threw)
    next
      case (Inr u)
      with Some False inst have "createRoom cbs roomId minP exps now gm
        = (Inr (Room_new roomId minP exps (length (hookManagers gm)) now),
           gm\<lparr> hookManagers := hookManagers gm @ [hm],
               rooms := (rooms gm)(roomId \<mapsto> Room_new roomId minP exps (length (hookManagers gm)) now) \<rparr>)"
        by (simp add: createRoom_def Let_def)
      moreover from Some inst
      have "hm = snd (installExpansions cbs (case exps of None \<Rightarrow> [] | Some es \<Rightarrow> es) HookManager_new)"
        by simp
      ultimately show ?thesis by (rule made)
    qed
  qed
qed

lemma Room_new_hookManager: "hookManager (Room_new roomId minP exps a now) = a"
  by (simp add: Room_new_def)

lemma reachable_invariant:
  assumes "reachable cbs gm"
  shows "(\<forall>k r. rooms gm k = Some r \<longrightarrow> hookManager r < length (hookManagers gm))
       \<and> (\<forall>k1 k2 r1 r2. k1 \<noteq> k2 \<and> rooms gm k1 = Some r1 \<and> rooms gm k2 = Some r2
            \<longrightarrow> hookManager r1 \<noteq> hookManager r2)"
  using assms
proof (induction rule: reachable.induct)
  case init
  show ?case by (simp add: GameManager_new_def)
next
  case (create gm roomId minP exps now)
  show ?case
  proof (cases rule: createRoom_cases [of cbs roomId minP exps now gm])
    case (threw e hm)
    with create.IH show ?thesis by (auto simp: less_Suc_eq)
  next
    case (made hm)
    with create.IH show ?thesis
      by (auto simp: less_Suc_eq Room_new_hookManager split: if_splits) (metis less_irrefl)+
  qed
next
  case (remove gm roomId)
  then show ?case by (auto simp: removeRoom_def split: if_splits)
next
  case (room_op gm roomId r r')
  show ?case
  proof (intro conjI allI impI)
    fix k q
    assume "rooms (gm\<lparr> rooms := (rooms gm)(roomId \<mapsto> r') \<rparr>) k = Some q"
    with room_op show "hookManager q < length (hookManagers (gm\<lparr> rooms := (rooms gm)(roomId \<mapsto> r') \<rparr>))"
      by (cases "k = roomId") auto
  next
    fix k1 k2 r1 r2
    assume h: "k1 \<noteq> k2 \<and> rooms (gm\<lparr> rooms := (rooms gm)(roomId \<mapsto> r') \<rparr>) k1 = Some r1
        \<and> rooms (gm\<lparr> rooms := (rooms gm)(roomId \<mapsto> r') \<rparr>) k2 = Some r2"
    from room_op.IH have sep: "\<And>k1 k2 r1 r2. k1 \<noteq> k2 \<Longrightarrow> rooms gm k1 = Some r1
        \<Longrightarrow> rooms gm k2 = Some r2 \<Longrightarrow> hookManager r1 \<noteq> hookManager r2"
      by blast
    show "hookManager r1 \<noteq> hookManager r2"
    proof (cases "k1 = roomId")
      case True
      with h have "r1 = r'" "rooms gm k2 = Some r2" "k2 \<noteq> roomId" by auto
      with sep [of roomId k2 r r2] room_op.hyps show ?thesis by auto
    next
      case False
      show ?thesis
      proof (cases "k2 = roomId")
        case True
        with h False have "r2 = r'" "rooms gm k1 = Some r1" by auto
        with sep [of k1 roomId r1 r] room_op.hyps False show ?thesis by auto
      next
        case k2: False
        with h False have "rooms gm k1 = Some r1" "rooms gm k2 = Some r2" "k1 \<noteq> k2" by auto
        with sep show ?thesis by blast
      qed
    qed
  qed
qed

lemma gm_A_eval:
  "createRoom sample_callbacks ''AAAAA'' None (Some [''merlin-assassin'']) 1 GameManager_new
     = (Inr room_A, gm_A)"
  "rooms gm_A ''AAAAA'' = Some room_A"
  "hookManagers gm_A = [HookManager_new
        (roles_assign \<mapsto> [merlin_roles_assign sample_callbacks],
         mission_resolve \<mapsto> [merlin_mission_resolve_cb],
         state_sync \<mapsto> [merlin_state_sync sample_callbacks])]"
  by (simp_all add: gm_A_def room_A_def createRoom_def GameManager_new_def Let_def
      AVAILABLE_EXPANSIONS_def MerlinAssassinExpansion_def install_def hm_register_def
      HookManager_new_def sample_callbacks_def)

lemma gm_AB_eval:
  "createRoom sample_callbacks ''BBBBB'' None (Some [''inquisidor'']) 2 gm_A = (Inr room_B, gm_AB)"
  "hookManagers gm_AB = [HookManager_new
        (roles_assign \<mapsto> [merlin_roles_assign sample_callbacks],
         mission_resolve \<mapsto> [merlin_mission_resolve_cb],
         state_sync \<mapsto> [merlin_state_sync sample_callbacks]),
      HookManager_new
        (game_start \<mapsto> [inquisidor_game_start sample_callbacks],
         mission_resolve \<mapsto> [inquisidor_mission_resolve_cb],
         state_sync \<mapsto> [inquisidor_state_sync sample_callbacks])]"
  by (simp_all add: gm_AB_def room_B_def createRoom_def gm_A_eval(3) Let_def
      AVAILABLE_EXPANSIONS_def InquisidorExpansion_def install_def hm_register_def
      HookManager_new_def sample_callbacks_def)

lemma finish_snd:
  "P r6 \<Longrightarrow> (c \<Longrightarrow> P (snd nt)) \<Longrightarrow>
    P (snd (if c then (case nt of (Inl e, r7) \<Rightarrow> (Inl e, r7) | (Inr u, r7) \<Rightarrow> (Inr res, r7))
            else (Inr res, r6)))"
  by (cases c; cases nt; cases "fst nt") auto

lemma resolveMission_streak:
  assumes hook: "\<forall>ctx w. voteRejections (snd (trigger hm mission_resolve ctx w)) = voteRejections w"
  shows "voteRejections (snd (resolveMission hm now r)) = voteRejections r"
proof -
  note h = hook [THEN spec, THEN spec]
  show ?thesis
    unfolding resolveMission_def Let_def split_beta
    apply (rule finish_snd [unfolded split_beta, where P = "\<lambda>x. voteRejections x = voteRejections r"])
     apply (simp add: h)
    apply (simp add: h nextTurn_voteRejections)
    done
qed

text \<open>The rule \<open>room_op\<close> of \<open>reachable\<close> covers the operations of the Room: none assigns \<open>hookManager\<close>.\<close>

lemma room_ops_keep_hookManager:
  "hookManager (snd (addPlayer sid nick pid now r)) = hookManager r"
  "hookManager (removePlayer sid now r) = hookManager r"
  "hookManager (snd (reconnectPlayer p new now r)) = hookManager r"
  "hookManager (snd (nextTurn now r)) = hookManager r"
  "hookManager (snd (selectTeam ids now r)) = hookManager r"
  "hookManager (submitVote sid b now r) = hookManager r"
  "hookManager (snd (tallyVotes now r)) = hookManager r"
  "hookManager (snd (submitMissionAction sid b now r)) = hookManager r"
  "hookManager (snd (handleAssassination t r)) = hookManager r"
proof -
  show nt: "hookManager (snd (nextTurn now r)) = hookManager r" for r
    by (simp add: nextTurn_def updateLeader_def Let_def split: option.splits)
  show "hookManager (snd (addPlayer sid nick pid now r)) = hookManager r"
    by (simp add: addPlayer_def Let_def)
  show "hookManager (removePlayer sid now r) = hookManager r"
    by (simp add: removePlayer_def)
  show "hookManager (snd (reconnectPlayer p new now r)) = hookManager r"
    by (simp add: reconnectPlayer_def split: option.splits)
  show "hookManager (snd (selectTeam ids now r)) = hookManager r"
    by (simp add: selectTeam_def Let_def split: option.splits)
  show "hookManager (submitVote sid b now r) = hookManager r"
    by (simp add: submitVote_def split: option.splits)
  show "hookManager (snd (submitMissionAction sid b now r)) = hookManager r"
    by (simp add: submitMissionAction_def split: option.splits)
  show "hookManager (snd (handleAssassination t r)) = hookManager r"
    by (simp add: handleAssassination_def Let_def)
  show "hookManager (snd (tallyVotes now r)) = hookManager r"
    by (simp add: tallyVotes_def nextTurn_def updateLeader_def Let_def
        split: option.splits prod.splits)
qed


subsection \<open>C1: the penalty at the maximum rejection streak\<close>

text \<open>
  C1. With the rejection streak one below \<open>MAX_REJECTIONS\<close> (5), a \<^verbatim>\<open>tallyVotes\<close> call whose
  recorded votes lack a strict approval majority is to return \<open>penaltyApplied = true\<close>, set
  the phase to \<open>GAME_OVER\<close>, reset the streak to 0 and make \<^verbatim>\<open>getWinner()\<close> return \<open>SPY\<close>; the
  penalty branch says so itself (\<^verbatim>\<open>// After MAX_REJECTIONS rejected proposals, Spies win
  immediately\<close>, \<^verbatim>\<open>this.failedMissions = MISSIONS_TO_FAIL; // Force spy win condition\<close>).
  The code does the first three and misses the winner when three missions have succeeded:
  \<^verbatim>\<open>getWinner\<close> tests \<open>succeededMissions\<close> before \<open>failedMissions\<close>. In \<open>room1_assassination\<close>
  (Merlin & Assassin pipeline, three missions passed, streak 4) the game is still running
  in phase \<open>ASSASSINATION\<close>; the fifth rejection applies the penalty, ends the game, and the
  winner is \<open>RESISTANCE\<close>. The same happens in \<open>room1_won\<close>, a room without expansions.
\<close>

theorem tallyVotes_penalty_winner:
  "phase room1_assassination = ASSASSINATION
   \<and> getWinner room1_assassination = None
   \<and> succeededMissions room1_assassination = 3
   \<and> failedMissions room1_assassination = 0
   \<and> voteRejections room1_assassination = MAX_REJECTIONS - 1
   \<and> votes room1_fifth = [(''p1'', False)]
   \<and> fst (tallyVotes 10 room1_fifth)
       = Inr \<lparr> approved = False, approveCount = 0, rejectCount = 1, penaltyApplied = True \<rparr>
   \<and> phase (snd (tallyVotes 10 room1_fifth)) = GAME_OVER
   \<and> voteRejections (snd (tallyVotes 10 room1_fifth)) = 0
   \<and> failedMissions (snd (tallyVotes 10 room1_fifth)) = MISSIONS_TO_FAIL
   \<and> succeededMissions (snd (tallyVotes 10 room1_fifth)) = 3
   \<and> getWinner (snd (tallyVotes 10 room1_fifth)) = Some RESISTANCE
   \<and> voteRejections room1_won = MAX_REJECTIONS - 1
   \<and> succeededMissions room1_won = 3
   \<and> fst (tallyVotes 9 room1_won)
       = Inr \<lparr> approved = False, approveCount = 0, rejectCount = 0, penaltyApplied = True \<rparr>
   \<and> phase (snd (tallyVotes 9 room1_won)) = GAME_OVER
   \<and> getWinner (snd (tallyVotes 9 room1_won)) = Some RESISTANCE"
  by (simp add: room1_fifth_eval room1_won_eval tallyVotes_def getWinner_def merlin_id_def
        MAX_REJECTIONS_def MISSIONS_TO_FAIL_def MISSIONS_TO_SUCCEED_def room1_assassination_eval)


subsection \<open>C2: the rejection streak is cumulative\<close>

text \<open>
  C2. The streak after a tally is the streak before it when the vote is approved, one more
  when it is rejected below the maximum, and 0 when the rejection reaches \<open>MAX_REJECTIONS\<close>.
  So over any sequence of tallies that stays below the maximum the streak grows by the number
  of rejected tallies, whatever approvals lie between them, and the rejection that brings the
  count to the maximum applies the penalty. A tally lowers the streak only by applying the
  penalty, and no other operation modelled here writes the streak (\<^verbatim>\<open>resolveMission\<close> as
  long as the callbacks it triggers do not; \<^verbatim>\<open>resetGame\<close> is the explicit reset).
\<close>

theorem rejection_streak_cumulative:
  "voteRejections (snd (tallyVotes now r)) =
     (if \<not> rejected (votes r) then voteRejections r
      else if voteRejections r + 1 \<ge> MAX_REJECTIONS then 0
      else voteRejections r + 1)
   \<and> (voteRejections r + length (filter (\<lambda>round. rejected (fst round)) rounds) < MAX_REJECTIONS \<longrightarrow>
        voteRejections (run_tallies rounds r)
          = voteRejections r + length (filter (\<lambda>round. rejected (fst round)) rounds))
   \<and> (voteRejections r + length (filter (\<lambda>round. rejected (fst round)) rounds) + 1 = MAX_REJECTIONS
        \<and> rejected vs \<longrightarrow>
        (\<exists>res. fst (tallyVotes now ((run_tallies rounds r)\<lparr> votes := vs \<rparr>)) = Inr res
               \<and> penaltyApplied res)
        \<and> voteRejections (snd (tallyVotes now ((run_tallies rounds r)\<lparr> votes := vs \<rparr>))) = 0)
   \<and> (voteRejections (snd (tallyVotes now r)) < voteRejections r \<longrightarrow>
        (\<exists>res. fst (tallyVotes now r) = Inr res \<and> penaltyApplied res))
   \<and> voteRejections (snd (addPlayer sid nick pid now r)) = voteRejections r
   \<and> voteRejections (removePlayer sid now r) = voteRejections r
   \<and> voteRejections (snd (reconnectPlayer p new now r)) = voteRejections r
   \<and> voteRejections (snd (nextTurn now r)) = voteRejections r
   \<and> voteRejections (snd (selectTeam ids now r)) = voteRejections r
   \<and> voteRejections (submitVote sid b now r) = voteRejections r
   \<and> voteRejections (snd (submitMissionAction sid b now r)) = voteRejections r
   \<and> voteRejections (snd (handleAssassination t r)) = voteRejections r
   \<and> ((\<forall>ctx w. voteRejections (snd (trigger hm mission_resolve ctx w)) = voteRejections w) \<longrightarrow>
        voteRejections (snd (resolveMission hm now r)) = voteRejections r)"
proof -
  let ?k = "length (filter (\<lambda>round. rejected (fst round)) rounds)"
  have seq: "voteRejections r + ?k < MAX_REJECTIONS \<longrightarrow>
        voteRejections (run_tallies rounds r) = voteRejections r + ?k"
    by (simp add: run_tallies_streak)
  have fifth: "voteRejections r + ?k + 1 = MAX_REJECTIONS \<and> rejected vs \<longrightarrow>
        (\<exists>res. fst (tallyVotes now ((run_tallies rounds r)\<lparr> votes := vs \<rparr>)) = Inr res
               \<and> penaltyApplied res)
        \<and> voteRejections (snd (tallyVotes now ((run_tallies rounds r)\<lparr> votes := vs \<rparr>))) = 0"
  proof
    assume h: "voteRejections r + ?k + 1 = MAX_REJECTIONS \<and> rejected vs"
    then have "voteRejections r + ?k < MAX_REJECTIONS" by simp
    then have "voteRejections (run_tallies rounds r) = voteRejections r + ?k"
      by (rule run_tallies_streak)
    with h have top: "voteRejections ((run_tallies rounds r)\<lparr> votes := vs \<rparr>) + 1 \<ge> MAX_REJECTIONS"
      by simp
    from h have rej: "rejected (votes ((run_tallies rounds r)\<lparr> votes := vs \<rparr>))" by simp
    from tally_at_maximum [OF rej top, of now]
    show "(\<exists>res. fst (tallyVotes now ((run_tallies rounds r)\<lparr> votes := vs \<rparr>)) = Inr res
               \<and> penaltyApplied res)
        \<and> voteRejections (snd (tallyVotes now ((run_tallies rounds r)\<lparr> votes := vs \<rparr>))) = 0"
      by simp
  qed
  have drop: "voteRejections (snd (tallyVotes now r)) < voteRejections r \<longrightarrow>
        (\<exists>res. fst (tallyVotes now r) = Inr res \<and> penaltyApplied res)"
    using tallyVotes_drop_is_penalty by blast
  have a: "voteRejections (snd (addPlayer sid nick pid now r)) = voteRejections r"
    by (simp add: addPlayer_def Let_def)
  have b: "voteRejections (removePlayer sid now r) = voteRejections r"
    by (simp add: removePlayer_def)
  have c: "voteRejections (snd (reconnectPlayer p new now r)) = voteRejections r"
    by (simp add: reconnectPlayer_def split: option.splits)
  have d: "voteRejections (snd (selectTeam ids now r)) = voteRejections r"
    by (simp add: selectTeam_def Let_def split: option.splits)
  have e: "voteRejections (submitVote sid b now r) = voteRejections r"
    by (simp add: submitVote_def split: option.splits)
  have f: "voteRejections (snd (submitMissionAction sid b now r)) = voteRejections r"
    by (simp add: submitMissionAction_def split: option.splits)
  have g: "voteRejections (snd (handleAssassination t r)) = voteRejections r"
    by (simp add: handleAssassination_def Let_def)
  have rm: "(\<forall>ctx w. voteRejections (snd (trigger hm mission_resolve ctx w)) = voteRejections w) \<longrightarrow>
        voteRejections (snd (resolveMission hm now r)) = voteRejections r"
    using resolveMission_streak [where hm = hm and r = r and now = now] by blast
  show ?thesis
    by (intro conjI tallyVotes_streak seq fifth drop a b c nextTurn_voteRejections d e f g rm)
qed

theorem rejection_streak_cumulative_witness:
  "voteRejections room5 = 0
   \<and> voteRejections (run_tallies
        [(all_reject, 1), (three_approve, 2), (all_reject, 3), (all_reject, 4), (all_reject, 5)]
        room5) = 4
   \<and> (\<exists>res. fst (tallyVotes 6 ((run_tallies
        [(all_reject, 1), (three_approve, 2), (all_reject, 3), (all_reject, 4), (all_reject, 5)]
        room5)\<lparr> votes := all_reject \<rparr>)) = Inr res \<and> penaltyApplied res)"
proof -
  let ?rounds = "[(all_reject, 1::nat), (three_approve, 2), (all_reject, 3), (all_reject, 4),
    (all_reject, 5)]"
  note th = rejection_streak_cumulative [where r = room5 and rounds = ?rounds
      and vs = all_reject and now = 6]
  have z: "voteRejections room5 = 0" by (simp add: room5_def)
  have k: "length (filter (\<lambda>round. rejected (fst round)) ?rounds) = 4"
    by (simp add: example_votes)
  from th [THEN conjunct2, THEN conjunct1] z k
  have four: "voteRejections (run_tallies ?rounds room5) = 4"
    by (simp add: MAX_REJECTIONS_def)
  from th [THEN conjunct2, THEN conjunct2, THEN conjunct1] z k example_votes(1)
  have pen: "\<exists>res. fst (tallyVotes 6 ((run_tallies ?rounds room5)\<lparr> votes := all_reject \<rparr>)) = Inr res
      \<and> penaltyApplied res"
    by (simp add: MAX_REJECTIONS_def)
  from z four pen show ?thesis by simp
qed


subsection \<open>C3: one hook pipeline per room\<close>

text \<open>
  C3. In every state a GameManager reaches, a room that \<^verbatim>\<open>createRoom\<close> returns holds a
  HookManager distinct from that of every room already stored; creating it leaves the
  pipelines of the stored rooms as they were, so what they run on any extension point is
  unchanged, and its own pipeline holds exactly what installing its own expansions on a
  new HookManager registers. Afterwards any two stored rooms still hold distinct
  HookManagers.
\<close>

theorem hook_pipelines_per_room:
  assumes "reachable cbs gm"
    and "createRoom cbs roomId minP exps now gm = (Inr b, gm')"
    and "rooms gm k = Some a"
  shows "hookManager a \<noteq> hookManager b
    \<and> hookManagers gm' ! hookManager a = hookManagers gm ! hookManager a
    \<and> hookManagers gm' ! hookManager b
        = snd (installExpansions cbs (case exps of None \<Rightarrow> [] | Some es \<Rightarrow> es) HookManager_new)
    \<and> room_trigger gm' a hookName ctx w = room_trigger gm a hookName ctx w
    \<and> (\<forall>k1 k2 r1 r2. k1 \<noteq> k2 \<and> rooms gm' k1 = Some r1 \<and> rooms gm' k2 = Some r2
          \<longrightarrow> hookManager r1 \<noteq> hookManager r2)"
proof -
  from reachable_invariant [OF assms(1)] assms(3)
  have old: "hookManager a < length (hookManagers gm)" by blast
  have "reachable cbs (snd (createRoom cbs roomId minP exps now gm))"
    using assms(1) by (rule reachable.create)
  with assms(2) have "reachable cbs gm'" by simp
  from reachable_invariant [OF this]
  have sep: "\<forall>k1 k2 r1 r2. k1 \<noteq> k2 \<and> rooms gm' k1 = Some r1 \<and> rooms gm' k2 = Some r2
          \<longrightarrow> hookManager r1 \<noteq> hookManager r2"
    by blast
  show ?thesis
  proof (cases rule: createRoom_cases [of cbs roomId minP exps now gm])
    case (threw e hm)
    with assms(2) show ?thesis by simp
  next
    case (made hm)
    with assms(2) have b: "hookManager b = length (hookManagers gm)"
      and heap: "hookManagers gm' = hookManagers gm @ [hm]"
      by (auto simp: Room_new_hookManager)
    from b old have "hookManager a \<noteq> hookManager b" by simp
    moreover from heap old
    have same: "hookManagers gm' ! hookManager a = hookManagers gm ! hookManager a"
      by (simp add: nth_append)
    moreover from heap b made(2)
    have "hookManagers gm' ! hookManager b
        = snd (installExpansions cbs (case exps of None \<Rightarrow> [] | Some es \<Rightarrow> es) HookManager_new)"
      by simp
    moreover from same have "room_trigger gm' a hookName ctx w = room_trigger gm a hookName ctx w"
      by (simp add: room_trigger_def)
    ultimately show ?thesis using sep by blast
  qed
qed

theorem hook_pipelines_per_room_witness:
  "hookManager room_A \<noteq> hookManager room_B
   \<and> room_trigger gm_AB room_A mission_resolve ctx_over room1_won
       = room_trigger gm_A room_A mission_resolve ctx_over room1_won
   \<and> nextPhase (fst (room_trigger gm_A room_A mission_resolve ctx_over room1_won))
       = Some ASSASSINATION
   \<and> nextPhase (fst (room_trigger gm_AB room_B mission_resolve ctx_over room1_won))
       = Some GAME_OVER"
proof -
  have r: "reachable sample_callbacks gm_A"
    unfolding gm_A_def by (rule reachable.create [OF reachable.init])
  note th = hook_pipelines_per_room [OF r gm_AB_eval(1) gm_A_eval(2),
      where hookName = mission_resolve and ctx = ctx_over and w = room1_won]
  have a: "nextPhase (fst (room_trigger gm_A room_A mission_resolve ctx_over room1_won))
       = Some ASSASSINATION"
    by (simp add: room_trigger_def gm_A_eval(3) room_A_def Room_new_def trigger_def
        merlin_mission_resolve_cb_def ctx_over_def room1_won_eval)
  have b: "nextPhase (fst (room_trigger gm_AB room_B mission_resolve ctx_over room1_won))
       = Some GAME_OVER"
    by (simp add: room_trigger_def gm_AB_eval(2) room_B_def Room_new_def trigger_def
        inquisidor_mission_resolve_cb_def ctx_over_def)
  from th a b show ?thesis by simp
qed


subsection \<open>C4: validation failures and the phase\<close>





subsection \<open>C5: reconnection\<close>

text \<open>
  C5 (amended). For a known \<open>playerId\<close>, \<^verbatim>\<open>reconnectPlayer\<close> returns true and changes only the
  socket id of the first roster entry with that \<open>playerId\<close> and the room's \<open>lastActivityAt\<close>;
  the recorded votes, mission actions and selected team (all keyed by \<open>playerId\<close>) and every
  player's \<open>playerId\<close> are unchanged, and the \<open>playerId\<close> now resolves to the new socket id.
  For an unknown \<open>playerId\<close> it returns false and changes nothing.
\<close>

theorem reconnectPlayer_frame:
  "(getPlayerByPlayerId r pid \<noteq> None \<longrightarrow>
      fst (reconnectPlayer pid new now r) = True
      \<and> (\<exists>i < length (players r).
            playerId (players r ! i) = pid \<and> (\<forall>j < i. playerId (players r ! j) \<noteq> pid)
            \<and> snd (reconnectPlayer pid new now r)
                = r\<lparr> players := (players r)[i := (players r ! i)\<lparr> id_sock := new \<rparr>],
                     lastActivityAt := now \<rparr>)
      \<and> votes (snd (reconnectPlayer pid new now r)) = votes r
      \<and> missionActions (snd (reconnectPlayer pid new now r)) = missionActions r
      \<and> selectedTeam (snd (reconnectPlayer pid new now r)) = selectedTeam r
      \<and> map playerId (players (snd (reconnectPlayer pid new now r))) = map playerId (players r)
      \<and> getSocketIdFromPlayerId (snd (reconnectPlayer pid new now r)) pid = Some new)
   \<and> (getPlayerByPlayerId r pid = None \<longrightarrow> reconnectPlayer pid new now r = (False, r))"
proof (cases "getPlayerByPlayerId r pid")
  case None
  then show ?thesis by (simp add: reconnectPlayer_def)
next
  case (Some player)
  then have found: "find (\<lambda>p. playerId p = pid) (players r) \<noteq> None"
    by (simp add: getPlayerByPlayerId_def)
  from set_first_id_index [OF found, of new] obtain i where
    i: "i < length (players r)" "playerId (players r ! i) = pid"
       "\<forall>j < i. playerId (players r ! j) \<noteq> pid"
       "set_first_id pid new (players r) = (players r)[i := (players r ! i)\<lparr> id_sock := new \<rparr>]"
    by blast
  have res: "reconnectPlayer pid new now r
      = (True, r\<lparr> players := set_first_id pid new (players r), lastActivityAt := now \<rparr>)"
    using Some by (simp add: reconnectPlayer_def)
  have idx: "\<exists>i < length (players r).
            playerId (players r ! i) = pid \<and> (\<forall>j < i. playerId (players r ! j) \<noteq> pid)
            \<and> snd (reconnectPlayer pid new now r)
                = r\<lparr> players := (players r)[i := (players r ! i)\<lparr> id_sock := new \<rparr>],
                     lastActivityAt := now \<rparr>"
    using i res by auto
  have sock: "getSocketIdFromPlayerId (snd (reconnectPlayer pid new now r)) pid = Some new"
    using found
    by (auto simp: res getSocketIdFromPlayerId_def getPlayerByPlayerId_def find_set_first_id)
  from Some res idx sock show ?thesis
    by (simp add: playerIds_set_first_id)
qed

text \<open>
  The timestamp is the amendment: a successful reconnection also writes
  \<^verbatim>\<open>this.lastActivityAt = Date.now()\<close>, so more than the socket id changes.
\<close>

theorem reconnectPlayer_frame_counterexample:
  "getPlayerByPlayerId room5 ''p2'' \<noteq> None
   \<and> lastActivityAt room5 = 1
   \<and> lastActivityAt (snd (reconnectPlayer ''p2'' ''s9'' 7 room5)) = 7
   \<and> snd (reconnectPlayer ''p2'' ''s9'' 7 room5)
       \<noteq> room5\<lparr> players := (players room5)[1 := (players room5 ! 1)\<lparr> id_sock := ''s9'' \<rparr>] \<rparr>"
  by (simp add: reconnectPlayer_def getPlayerByPlayerId_def room5_def)

theorem reconnectPlayer_frame_witness:
  "fst (reconnectPlayer ''p2'' ''s9'' 7 (room5\<lparr> votes := [(''p2'', True)] \<rparr>)) = True
   \<and> votes (snd (reconnectPlayer ''p2'' ''s9'' 7 (room5\<lparr> votes := [(''p2'', True)] \<rparr>)))
       = [(''p2'', True)]
   \<and> getSocketIdFromPlayerId
        (snd (reconnectPlayer ''p2'' ''s9'' 7 (room5\<lparr> votes := [(''p2'', True)] \<rparr>))) ''p2''
       = Some ''s9''
   \<and> reconnectPlayer ''p7'' ''s9'' 7 room5 = (False, room5)"
proof -
  have known: "getPlayerByPlayerId (room5\<lparr> votes := [(''p2'', True)] \<rparr>) ''p2'' \<noteq> None"
    by (simp add: getPlayerByPlayerId_def room5_def)
  have unknown: "getPlayerByPlayerId room5 ''p7'' = None"
    by (simp add: getPlayerByPlayerId_def room5_def)
  from known unknown
    reconnectPlayer_frame [where r = "room5\<lparr> votes := [(''p2'', True)] \<rparr>" and pid = "''p2''"
      and new = "''s9''" and now = 7]
    reconnectPlayer_frame [where r = room5 and pid = "''p7''" and new = "''s9''" and now = 7]
  show ?thesis by simp
qed


subsection \<open>C6: the result of resolveMission\<close>

text \<open>
  C6. \<^verbatim>\<open>resolveMission\<close> is to return \<open>success = true\<close> exactly when no recorded action is a
  failure, and a map with one entry for every recorded action, also for the players who
  left the roster between submission and resolution: a disconnect drops no recorded action
  (the regression test: \<^verbatim>\<open>// It must NOT exclude the disconnected player's vote\<close>). The
  code misses two cases. In \<open>room3_team\<close> two actions are recorded and \<^verbatim>\<open>resolveMission\<close>
  returns both; after the second player disconnected (\<open>room3_clash\<close>) it returns one entry:
  the departed player's action is stored under the \<open>playerId\<close>, which is the key of the first
  player's entry, and overwrites it. In \<open>room1_empty\<close> the only player left, play continues,
  and \<^verbatim>\<open>nextTurn\<close> throws on the empty roster: nothing is returned.
\<close>

theorem resolveMission_disconnect_drops_action:
  "missionActions room3_team = [(''u1'', True), (''A'', False)]
   \<and> fst (resolveMission HookManager_new 9 room3_team)
       = Inr \<lparr> success = False, failCount = 1, votes_out = [(''A'', True), (''B'', False)] \<rparr>
   \<and> room3_clash = removePlayer ''B'' 8 room3_team
   \<and> missionActions room3_clash = [(''u1'', True), (''A'', False)]
   \<and> fst (resolveMission HookManager_new 9 room3_clash)
       = Inr \<lparr> success = False, failCount = 1, votes_out = [(''A'', False)] \<rparr>
   \<and> missionActions room1_empty = [(''p1'', True)]
   \<and> players room1_empty = []
   \<and> fst (resolveMission HookManager_new 9 room1_empty) = Inl TypeError"
proof -
  have "missionActions room3_team = [(''u1'', True), (''A'', False)]"
    by code_simp
  moreover have "fst (resolveMission HookManager_new 9 room3_team)
       = Inr \<lparr> success = False, failCount = 1, votes_out = [(''A'', True), (''B'', False)] \<rparr>"
    by code_simp
  moreover have "missionActions room3_clash = [(''u1'', True), (''A'', False)]"
    by code_simp
  moreover have "fst (resolveMission HookManager_new 9 room3_clash)
       = Inr \<lparr> success = False, failCount = 1, votes_out = [(''A'', False)] \<rparr>"
    by code_simp
  moreover have "missionActions room1_empty = [(''p1'', True)]"
    by code_simp
  moreover have "players room1_empty = []"
    by code_simp
  moreover have "fst (resolveMission HookManager_new 9 room1_empty) = Inl TypeError"
    by code_simp
  ultimately show ?thesis
    by (simp add: room3_clash_def)
qed


subsection \<open>C7: selectTeam\<close>



subsection \<open>C8: a throwing callback does not stop the pipeline\<close>

text \<open>
  C8 (amended). When the callbacks before a callback ran without stopping and that callback
  throws, \<^verbatim>\<open>trigger\<close> catches the error and goes on with the callbacks after it. The variable
  \<^verbatim>\<open>result\<close> is not assigned, so the next callback gets the context object that the failing
  callback was given, as the failing callback left it: the context the earlier callbacks
  produced together with what the failing callback wrote to it before it threw (nothing is
  rolled back). When every callback throws without writing the context, \<^verbatim>\<open>trigger\<close> returns
  the context it was given. \<^verbatim>\<open>trigger\<close> has no throwing path of its own: each statement that
  can throw is inside the \<^verbatim>\<open>try\<close>, and its model returns no \<open>error\<close>.
\<close>

theorem trigger_isolates_failures:
  "(hm hookName = Some (before @ cb # after) \<and> not_stopped before ctx w
      \<and> cb (fst (run_callbacks before ctx w)) (snd (run_callbacks before ctx w)) = (Threw left, w2)
    \<longrightarrow> trigger hm hookName ctx w = run_callbacks after left w2)
   \<and> (hm hookName = Some cbs \<and> (\<forall>cb \<in> set cbs. \<forall>c v. fst (cb c v) = Threw c)
    \<longrightarrow> fst (trigger hm hookName ctx w) = ctx)"
proof (intro conjI impI)
  assume h: "hm hookName = Some (before @ cb # after) \<and> not_stopped before ctx w
      \<and> cb (fst (run_callbacks before ctx w)) (snd (run_callbacks before ctx w)) = (Threw left, w2)"
  then have "trigger hm hookName ctx w = run_callbacks (before @ cb # after) ctx w"
    by (simp add: trigger_def)
  also from h have "\<dots> = run_callbacks (cb # after) (fst (run_callbacks before ctx w))
      (snd (run_callbacks before ctx w))"
    by (simp add: run_callbacks_append)
  also from h have "\<dots> = run_callbacks after left w2"
    by simp
  finally show "trigger hm hookName ctx w = run_callbacks after left w2" .
next
  assume h: "hm hookName = Some cbs \<and> (\<forall>cb \<in> set cbs. \<forall>c v. fst (cb c v) = Threw c)"
  then have "fst (run_callbacks cbs ctx w) = ctx"
    using run_callbacks_all_throw [of cbs ctx w] by blast
  with h show "fst (trigger hm hookName ctx w) = ctx"
    by (simp add: trigger_def Let_def)
qed

text \<open>
  The claim as stated fails for a callback that writes the context and then throws. In
  \<open>hm_write_fail\<close> the first callback sets \<^verbatim>\<open>context.nextPhase\<close> to \<open>ASSASSINATION\<close> and throws;
  the context produced before it is \<open>ctx0\<close>, with \<open>TEAM_SELECTION\<close>. The second callback,
  applied to \<open>ctx0\<close>, would return \<open>TEAM_SELECTION\<close>; \<^verbatim>\<open>trigger\<close> returns \<open>ASSASSINATION\<close>.
\<close>

theorem trigger_isolates_failures_counterexample:
  "hm_write_fail mission_resolve = Some [cb_write_fail, cb_result]
   \<and> nextPhase ctx0 = Some TEAM_SELECTION
   \<and> cb_write_fail ctx0 0 = (Threw (ctx0\<lparr> nextPhase := Some ASSASSINATION \<rparr>), 10)
   \<and> cb_result ctx0 10
       = (Returned \<lparr> nextPhase = Some TEAM_SELECTION, result = Some (True, 0),
                     stopPropagation = False \<rparr>, 110)
   \<and> trigger hm_write_fail mission_resolve ctx0 0
       = (\<lparr> nextPhase = Some ASSASSINATION, result = Some (True, 0), stopPropagation = False \<rparr>,
          110)
   \<and> trigger hm_write_fail mission_resolve ctx0 0 \<noteq> run_callbacks [cb_result] ctx0 10"
  by (simp add: hm_write_fail_def hm_register_def HookManager_new_def Let_def trigger_def
        cb_write_fail_def cb_result_def ctx0_def)

theorem trigger_isolates_failures_witness:
  "trigger hm3 mission_resolve ctx0 0
     = (\<lparr> nextPhase = Some ASSASSINATION, result = Some (True, 0), stopPropagation = False \<rparr>, 111)
   \<and> fst (trigger hm_fail mission_resolve ctx0 0) = ctx0"
proof -
  have run: "run_callbacks [cb_phase] ctx0 0 = (ctx0\<lparr> nextPhase := Some ASSASSINATION \<rparr>, 1)"
    by (simp add: cb_phase_def ctx0_def)
  have ns: "not_stopped [cb_phase] ctx0 0"
    by (simp add: cb_phase_def ctx0_def)
  have throws: "cb_fail (fst (run_callbacks [cb_phase] ctx0 0)) (snd (run_callbacks [cb_phase] ctx0 0))
      = (Threw (ctx0\<lparr> nextPhase := Some ASSASSINATION \<rparr>), 11)"
    by (simp only: run fst_conv snd_conv) (simp add: cb_fail_def)
  from trigger_isolates_failures [where hm = hm3 and hookName = mission_resolve
      and before = "[cb_phase]" and cb = cb_fail and after = "[cb_result]" and ctx = ctx0 and w = 0
      and ?w2.0 = 11 and left = "ctx0\<lparr> nextPhase := Some ASSASSINATION \<rparr>", THEN conjunct1]
    hm3_table ns throws
  have "trigger hm3 mission_resolve ctx0 0
      = run_callbacks [cb_result] (ctx0\<lparr> nextPhase := Some ASSASSINATION \<rparr>) 11"
    by blast
  then have first: "trigger hm3 mission_resolve ctx0 0
     = (\<lparr> nextPhase = Some ASSASSINATION, result = Some (True, 0), stopPropagation = False \<rparr>, 111)"
    by (simp add: cb_result_def ctx0_def)
  have table: "hm_fail mission_resolve = Some [cb_fail, cb_fail]"
    by (simp add: hm_fail_def hm_register_def HookManager_new_def Let_def)
  have all: "\<forall>cb \<in> set [cb_fail, cb_fail]. \<forall>c v. fst (cb c v) = Threw c"
    by (simp add: cb_fail_def)
  from trigger_isolates_failures [where hm = hm_fail and hookName = mission_resolve
      and cbs = "[cb_fail, cb_fail]" and ctx = ctx0 and w = 0, THEN conjunct2] table all
  have "fst (trigger hm_fail mission_resolve ctx0 0) = ctx0"
    by blast
  with first show ?thesis by simp
qed


subsection \<open>C9: the leader index after a removal\<close>

text \<open>
  C9. \<^verbatim>\<open>removePlayer\<close> filters the roster and leaves \<open>currentLeaderIndex\<close> as it was. After
  three players joined, the turn passed twice and the leading (last) player was removed,
  the roster has two players, the index is 2 and no player is marked leader: the bound
  \<open>currentLeaderIndex < length players\<close> does not hold.
\<close>

theorem removePlayer_leader_index:
  "players room3_leader_left \<noteq> []
   \<and> length (players room3_leader_left) = 2
   \<and> currentLeaderIndex room3_leader_left = Some 2
   \<and> filter isLeader (players room3_leader_left) = []"
  by code_simp


subsection \<open>C10: addPlayer and the capacity field\<close>

text \<open>
  C10. \<^verbatim>\<open>addPlayer\<close> never enforces the capacity: in every room, whatever \<open>maxPlayers\<close> is, it
  returns the new player (its \<open>playerId\<close> the given one, or the socket id when none or an
  empty one is given) and appends it to the roster. No operation reads \<open>maxPlayers\<close>:
  changing the field changes no result and no other field of \<^verbatim>\<open>addPlayer\<close>,
  \<^verbatim>\<open>removePlayer\<close>, \<^verbatim>\<open>reconnectPlayer\<close>, \<^verbatim>\<open>nextTurn\<close>, \<^verbatim>\<open>selectTeam\<close>, \<^verbatim>\<open>submitVote\<close>,
  \<^verbatim>\<open>tallyVotes\<close>, \<^verbatim>\<open>submitMissionAction\<close>, \<^verbatim>\<open>handleAssassination\<close> and \<^verbatim>\<open>getWinner\<close>.
\<close>

theorem addPlayer_ignores_capacity:
  "fst (addPlayer sid nick pid now r) =
      \<lparr> id_sock = sid,
        playerId = (case pid of None \<Rightarrow> sid | Some p \<Rightarrow> if p = [] then sid else p),
        nickname = nick, role = None, specialRole = None, isLeader = False \<rparr>
   \<and> players (snd (addPlayer sid nick pid now r)) = players r @ [fst (addPlayer sid nick pid now r)]
   \<and> addPlayer sid nick pid now (r\<lparr> maxPlayers := m \<rparr>)
       = apsnd (\<lambda>r'. r'\<lparr> maxPlayers := m \<rparr>) (addPlayer sid nick pid now r)
   \<and> removePlayer sid now (r\<lparr> maxPlayers := m \<rparr>) = (removePlayer sid now r)\<lparr> maxPlayers := m \<rparr>
   \<and> reconnectPlayer p new now (r\<lparr> maxPlayers := m \<rparr>)
       = apsnd (\<lambda>r'. r'\<lparr> maxPlayers := m \<rparr>) (reconnectPlayer p new now r)
   \<and> nextTurn now (r\<lparr> maxPlayers := m \<rparr>) = apsnd (\<lambda>r'. r'\<lparr> maxPlayers := m \<rparr>) (nextTurn now r)
   \<and> selectTeam ids now (r\<lparr> maxPlayers := m \<rparr>)
       = apsnd (\<lambda>r'. r'\<lparr> maxPlayers := m \<rparr>) (selectTeam ids now r)
   \<and> submitVote sid b now (r\<lparr> maxPlayers := m \<rparr>) = (submitVote sid b now r)\<lparr> maxPlayers := m \<rparr>
   \<and> tallyVotes now (r\<lparr> maxPlayers := m \<rparr>) = apsnd (\<lambda>r'. r'\<lparr> maxPlayers := m \<rparr>) (tallyVotes now r)
   \<and> submitMissionAction sid b now (r\<lparr> maxPlayers := m \<rparr>)
       = apsnd (\<lambda>r'. r'\<lparr> maxPlayers := m \<rparr>) (submitMissionAction sid b now r)
   \<and> handleAssassination t (r\<lparr> maxPlayers := m \<rparr>)
       = apsnd (\<lambda>r'. r'\<lparr> maxPlayers := m \<rparr>) (handleAssassination t r)
   \<and> getWinner (r\<lparr> maxPlayers := m \<rparr>) = getWinner r"
proof -
  have ids: "resolve_ids (r\<lparr> maxPlayers := m \<rparr>) xs = resolve_ids r xs" for xs
    by (induction xs) (auto simp: getPlayer_def split: option.splits)
  have a: "addPlayer sid nick pid now (r\<lparr> maxPlayers := m \<rparr>)
       = apsnd (\<lambda>r'. r'\<lparr> maxPlayers := m \<rparr>) (addPlayer sid nick pid now r)"
    by (simp add: addPlayer_def Let_def)
  have b: "reconnectPlayer p new now (r\<lparr> maxPlayers := m \<rparr>)
       = apsnd (\<lambda>r'. r'\<lparr> maxPlayers := m \<rparr>) (reconnectPlayer p new now r)"
    by (simp add: reconnectPlayer_def getPlayerByPlayerId_def split: option.splits)
  have c: "selectTeam ids now (r\<lparr> maxPlayers := m \<rparr>)
       = apsnd (\<lambda>r'. r'\<lparr> maxPlayers := m \<rparr>) (selectTeam ids now r)"
    by (simp add: selectTeam_def getCurrentMissionSize_def ids Let_def split: option.splits)
  have d: "submitVote sid b now (r\<lparr> maxPlayers := m \<rparr>) = (submitVote sid b now r)\<lparr> maxPlayers := m \<rparr>"
    by (simp add: submitVote_def getPlayerIdFromSocket_def getPlayer_def split: option.splits)
  have e: "submitMissionAction sid b now (r\<lparr> maxPlayers := m \<rparr>)
       = apsnd (\<lambda>r'. r'\<lparr> maxPlayers := m \<rparr>) (submitMissionAction sid b now r)"
    by (simp add: submitMissionAction_def getPlayerIdFromSocket_def getPlayer_def
        split: option.splits)
  have f: "handleAssassination t (r\<lparr> maxPlayers := m \<rparr>)
       = apsnd (\<lambda>r'. r'\<lparr> maxPlayers := m \<rparr>) (handleAssassination t r)"
    by (simp add: handleAssassination_def merlin_id_def Let_def)
  have g: "getWinner (r\<lparr> maxPlayers := m \<rparr>) = getWinner r"
    by (simp add: getWinner_def merlin_id_def cong: option.case_cong)
  have h: "fst (addPlayer sid nick pid now r) =
      \<lparr> id_sock = sid,
        playerId = (case pid of None \<Rightarrow> sid | Some p \<Rightarrow> if p = [] then sid else p),
        nickname = nick, role = None, specialRole = None, isLeader = False \<rparr>"
    by (simp add: addPlayer_def Let_def truthy_def split: option.splits)
  have i: "players (snd (addPlayer sid nick pid now r))
      = players r @ [fst (addPlayer sid nick pid now r)]"
    by (simp add: addPlayer_def Let_def)
  have j: "removePlayer sid now (r\<lparr> maxPlayers := m \<rparr>) = (removePlayer sid now r)\<lparr> maxPlayers := m \<rparr>"
    by (simp add: removePlayer_def)
  show ?thesis
    by (intro conjI h i a j b nextTurn_maxPlayers c d tallyVotes_maxPlayers e f g)
qed

theorem addPlayer_ignores_capacity_witness:
  "length (players (room5\<lparr> maxPlayers := 5 \<rparr>)) = maxPlayers (room5\<lparr> maxPlayers := 5 \<rparr>)
   \<and> playerId (fst (addPlayer ''s6'' ''f'' None 9 (room5\<lparr> maxPlayers := 5 \<rparr>))) = ''s6''
   \<and> length (players (snd (addPlayer ''s6'' ''f'' None 9 (room5\<lparr> maxPlayers := 5 \<rparr>)))) = 6
   \<and> last (players (snd (addPlayer ''s6'' ''f'' None 9 (room5\<lparr> maxPlayers := 5 \<rparr>))))
       = fst (addPlayer ''s6'' ''f'' None 9 (room5\<lparr> maxPlayers := 5 \<rparr>))"
proof -
  note th = addPlayer_ignores_capacity [where sid = "''s6''" and nick = "''f''" and pid = None
      and now = 9 and r = "room5\<lparr> maxPlayers := 5 \<rparr>"]
  have new: "playerId (fst (addPlayer ''s6'' ''f'' None 9 (room5\<lparr> maxPlayers := 5 \<rparr>))) = ''s6''"
    by (simp add: th [THEN conjunct1])
  have app: "players (snd (addPlayer ''s6'' ''f'' None 9 (room5\<lparr> maxPlayers := 5 \<rparr>)))
      = players (room5\<lparr> maxPlayers := 5 \<rparr>)
        @ [fst (addPlayer ''s6'' ''f'' None 9 (room5\<lparr> maxPlayers := 5 \<rparr>))]"
    by (rule th [THEN conjunct2, THEN conjunct1])
  have len: "length (players (room5\<lparr> maxPlayers := 5 \<rparr>)) = 5"
    by (simp add: room5_def)
  from new app len show ?thesis by simp
qed

end
